theory Spec2Isabelle
  imports Complex_Main "HOL-Library.Multiset" "HOL-Library.Option_ord"
begin

section \<open>JavaScript numbers\<close>

text \<open>
  The dashboard actions compute with JavaScript numbers. A number is modelled as a real
  value, one of the two infinities, or NaN; the rounding of IEEE doubles and the sign of
  zero are left out. \<open>parseFloat\<close> is the language's builtin and is taken as a parameter
  \<open>pf\<close> of every function that calls it on a cache string.
\<close>

datatype jsnum = Num real | PInf | NInf | NaN

fun js_add :: "jsnum \<Rightarrow> jsnum \<Rightarrow> jsnum" where
  "js_add (Num a) (Num b) = Num (a + b)"
| "js_add NaN _ = NaN"
| "js_add _ NaN = NaN"
| "js_add PInf NInf = NaN"
| "js_add NInf PInf = NaN"
| "js_add PInf _ = PInf"
| "js_add _ PInf = PInf"
| "js_add NInf _ = NInf"
| "js_add _ NInf = NInf"

text \<open>Division by an array length that \<open>|| 1\<close> has made positive.\<close>

fun js_div_count :: "jsnum \<Rightarrow> nat \<Rightarrow> jsnum" where
  "js_div_count (Num a) n = Num (a / real n)"
| "js_div_count PInf n = PInf"
| "js_div_count NInf n = NInf"
| "js_div_count NaN n = NaN"

fun js_floor :: "jsnum \<Rightarrow> jsnum" where
  "js_floor (Num a) = Num (of_int \<lfloor>a\<rfloor>)"
| "js_floor PInf = PInf"
| "js_floor NInf = NInf"
| "js_floor NaN = NaN"

text \<open>\<open>x || d\<close> on an optional number: undefined, 0 and NaN are falsy.\<close>

fun js_or_num :: "jsnum option \<Rightarrow> jsnum \<Rightarrow> jsnum" where
  "js_or_num None d = d"
| "js_or_num (Some (Num x)) d = (if x = 0 then d else Num x)"
| "js_or_num (Some NaN) d = d"
| "js_or_num (Some PInf) d = PInf"
| "js_or_num (Some NInf) d = NInf"

datatype js_error = TypeError | RedisError string | QueryError string

section \<open>The live market feed (actions/getMarketData)\<close>

definition MATERIALS :: "string list" where
  "MATERIALS = [''Copper'', ''Aluminum'', ''XLPE Polymer'', ''PVC Compound'',
                ''Mica Tape'', ''Steel Tape'', ''Lead Ingots'', ''Masterbatch'']"

record MaterialData =
  name :: string
  price :: jsnum
  trend :: jsnum
  signal :: string
  forecast :: jsnum
  confidence :: "jsnum option"

subsection \<open>The cache collaborator\<close>

text \<open>
  One reply of an ioredis pipeline is \<open>[err]\<close> (the value is then undefined) or
  \<open>[null, val]\<close> with \<open>val\<close> a string or null. \<open>exec\<close> throws, resolves to null, or
  resolves to the list of replies. The collaborator is a function from the queued keys
  to that outcome; \<open>redis_exec\<close> is a reachable store of string values.
\<close>

datatype reply = Err string | Val "string option"

datatype exec_outcome = ExecThrows string | ExecNull | ExecReplies "reply list"

type_synonym redis_store = "string \<rightharpoonup> string"

definition redis_exec :: "redis_store \<Rightarrow> string list \<Rightarrow> exec_outcome" where
  "redis_exec store keys = ExecReplies (map (\<lambda>k. Val (store k)) keys)"

definition live_key :: "string \<Rightarrow> string \<Rightarrow> string \<Rightarrow> string" where
  "live_key country mat metric = ''live:'' @ country @ '':'' @ mat @ '':'' @ metric"

text \<open>The keys queued by the \<open>forEach\<close>: five per material, the country fixed.\<close>

definition material_keys :: "string \<Rightarrow> string list" where
  "material_keys mat =
     (let country = ''Egypt'' in
      [live_key country mat ''price'', live_key country mat ''trend'',
       live_key country mat ''signal'', live_key country mat ''forecast'',
       live_key country mat ''confidence''])"

definition pipeline_keys :: "string list" where
  "pipeline_keys = concat (map material_keys MATERIALS)"

subsection \<open>getMockData\<close>

text \<open>
  \<open>Math.random\<close> is an input: \<open>rnd k\<close> is the value of the \<open>k\<close>-th call. Each material
  draws four values, in the order of the object literal.
\<close>

fun mock_from :: "(nat \<Rightarrow> real) \<Rightarrow> nat \<Rightarrow> string list \<Rightarrow> MaterialData list" where
  "mock_from rnd k [] = []"
| "mock_from rnd k (mat # ms) =
     \<lparr>name = mat,
      price = Num (of_int \<lfloor>rnd k * 5000\<rfloor> + 1000),
      trend = Num (rnd (k + 1) * 5),
      signal = (if rnd (k + 2) > 0.5 then ''BUY'' else ''WAIT''),
      forecast = Num (of_int \<lfloor>rnd (k + 3) * 6000\<rfloor> + 1000),
      confidence = Some (Num 85)\<rparr> # mock_from rnd (k + 4) ms"

definition getMockData :: "(nat \<Rightarrow> real) \<Rightarrow> MaterialData list" where
  "getMockData rnd = mock_from rnd 0 MATERIALS"

subsection \<open>getLiveMarketData\<close>

definition hasData :: "exec_outcome \<Rightarrow> bool" where
  "hasData results =
     (case results of
        ExecReplies (r # rs) \<Rightarrow> r \<noteq> Val None
      | _ \<Rightarrow> False)"

text \<open>
  \<open>parseRes\<close>, once for each value of its flag \<open>isFloat\<close>. Destructuring a reply beyond
  the end of the array raises a TypeError.
\<close>

definition parseRes_float :: "(string \<Rightarrow> jsnum) \<Rightarrow> reply list \<Rightarrow> nat \<Rightarrow> js_error + jsnum" where
  "parseRes_float pf results idx =
     (if idx < length results then
        (case results ! idx of
           Err e \<Rightarrow> Inr (Num 0)
         | Val None \<Rightarrow> Inr (Num 0)
         | Val (Some s) \<Rightarrow> Inr (pf s))
      else Inl TypeError)"

definition parseRes_string :: "reply list \<Rightarrow> nat \<Rightarrow> js_error + string" where
  "parseRes_string results idx =
     (if idx < length results then
        (case results ! idx of
           Err e \<Rightarrow> Inr ''N/A''
         | Val None \<Rightarrow> Inr ''N/A''
         | Val (Some s) \<Rightarrow> Inr s)
      else Inl TypeError)"

definition material_entry :: "(string \<Rightarrow> jsnum) \<Rightarrow> reply list \<Rightarrow> nat \<Rightarrow> js_error + MaterialData" where
  "material_entry pf results i =
     (let baseIdx = i * 5 in
      case parseRes_float pf results baseIdx of Inl e \<Rightarrow> Inl e | Inr p \<Rightarrow>
      (case parseRes_string results (baseIdx + 2) of Inl e \<Rightarrow> Inl e | Inr s \<Rightarrow>
      (case parseRes_float pf results (baseIdx + 3) of Inl e \<Rightarrow> Inl e | Inr f \<Rightarrow>
      (case parseRes_float pf results (baseIdx + 4) of Inl e \<Rightarrow> Inl e | Inr c \<Rightarrow>
         Inr \<lparr>name = MATERIALS ! i, price = p, trend = Num 0, signal = s,
              forecast = f, confidence = Some c\<rparr>))))"

text \<open>
  A loop or \<open>Array.map\<close> whose body may throw: the first exception ends it.
\<close>

fun map_try :: "('a \<Rightarrow> js_error + 'b) \<Rightarrow> 'a list \<Rightarrow> js_error + 'b list" where
  "map_try f [] = Inr []"
| "map_try f (x # xs) =
     (case f x of
        Inl e \<Rightarrow> Inl e
      | Inr y \<Rightarrow> (case map_try f xs of Inl e \<Rightarrow> Inl e | Inr ys \<Rightarrow> Inr (y # ys)))"

text \<open>The body of the \<open>try\<close> block, then the function with its \<open>catch\<close>.\<close>

definition getLiveMarketData_try ::
  "(string \<Rightarrow> jsnum) \<Rightarrow> (string list \<Rightarrow> exec_outcome) \<Rightarrow> (nat \<Rightarrow> real) \<Rightarrow> js_error + MaterialData list" where
  "getLiveMarketData_try pf exec rnd =
     (case exec pipeline_keys of
        ExecThrows e \<Rightarrow> Inl (RedisError e)
      | ExecNull \<Rightarrow> Inr (getMockData rnd)
      | ExecReplies results \<Rightarrow>
          if \<not> hasData (ExecReplies results) then Inr (getMockData rnd)
          else map_try (material_entry pf results) [0..<length MATERIALS])"

definition getLiveMarketData ::
  "(string \<Rightarrow> jsnum) \<Rightarrow> (string list \<Rightarrow> exec_outcome) \<Rightarrow> (nat \<Rightarrow> real) \<Rightarrow> MaterialData list" where
  "getLiveMarketData pf exec rnd =
     (case getLiveMarketData_try pf exec rnd of
        Inl e \<Rightarrow> getMockData rnd
      | Inr data \<Rightarrow> data)"

subsection \<open>getScannerStatus\<close>

record ScannerStatus =
  demand :: jsnum
  status_confidence :: jsnum

definition totalConf :: "MaterialData list \<Rightarrow> jsnum" where
  "totalConf materials =
     foldl (\<lambda>acc curr. js_add acc (js_or_num (confidence curr) (Num 85))) (Num 0) materials"

definition avgConf :: "MaterialData list \<Rightarrow> jsnum" where
  "avgConf materials =
     js_floor (js_div_count (totalConf materials)
                 (if length materials = 0 then 1 else length materials))"

text \<open>\<open>d\<close> is the value of the function's own call of \<open>Math.random\<close>.\<close>

definition getScannerStatus ::
  "(string \<Rightarrow> jsnum) \<Rightarrow> (string list \<Rightarrow> exec_outcome) \<Rightarrow> (nat \<Rightarrow> real) \<Rightarrow> real \<Rightarrow> ScannerStatus" where
  "getScannerStatus pf exec rnd d =
     (let materials = getLiveMarketData pf exec rnd in
      \<lparr>demand = Num (of_int \<lfloor>10000 + d * 90000\<rfloor>),
       status_confidence = avgConf materials\<rparr>)"

section \<open>The static material card\<close>

text \<open>
  The decision part of \<open>createMaterialCard\<close>: the CSS class chosen for the card and the
  text of its badge. \<open>mat.decision\<close> is a string or undefined; undefined and the empty
  string are falsy. The function exists in two copies. \<open>decisionClass\<close> and \<open>badge_text\<close>
  are the copy of src/unnamed/part_005, which compares and shows the decision as it is.
\<close>

definition decisionClass :: "string option \<Rightarrow> string" where
  "decisionClass decision =
     (let c0 = ''wait'';
          c1 = (if decision = Some ''BUY'' then ''buy'' else c0);
          c2 = (if decision = Some ''HOLD'' then ''hold'' else c1)
      in c2)"

definition badge_text :: "string option \<Rightarrow> string" where
  "badge_text decision =
     (case decision of
        None \<Rightarrow> ''WAIT''
      | Some d \<Rightarrow> (if d = [] then ''WAIT'' else d))"

text \<open>
  \<open>decisionClass_app\<close> and \<open>badge_text_app\<close> are the copy of
  services/dashboard/static/js/app.js, which first computes
  \<open>(mat.decision || '').toUpperCase()\<close> and compares and shows that. \<open>toUpperCase\<close> is
  the language's builtin and is a parameter.
\<close>

definition decisionClass_app :: "(string \<Rightarrow> string) \<Rightarrow> string option \<Rightarrow> string" where
  "decisionClass_app toUpperCase mat_decision =
     (let c0 = ''wait'';
          decision = toUpperCase (case mat_decision of None \<Rightarrow> [] | Some s \<Rightarrow> s);
          c1 = (if decision = ''BUY'' then ''buy'' else c0);
          c2 = (if decision = ''HOLD'' then ''hold'' else c1)
      in c2)"

definition badge_text_app :: "(string \<Rightarrow> string) \<Rightarrow> string option \<Rightarrow> string" where
  "badge_text_app toUpperCase mat_decision =
     (let decision = toUpperCase (case mat_decision of None \<Rightarrow> [] | Some s \<Rightarrow> s)
      in if decision = [] then ''WAIT'' else decision)"

section \<open>The audit store (init.sql) and the decision history\<close>

subsection \<open>Schema\<close>

text \<open>
  A column of a \<open>CREATE TABLE\<close> statement: name, type, NOT NULL, DEFAULT. The list below
  is the \<open>ai_signals\<close> table as the script creates it.
\<close>

record column =
  col_name :: string
  col_type :: string
  col_not_null :: bool
  col_default :: "string option"

definition ai_signals_ddl :: "column list" where
  "ai_signals_ddl =
     [\<lparr>col_name = ''id'', col_type = ''SERIAL PRIMARY KEY'', col_not_null = True, col_default = None\<rparr>,
      \<lparr>col_name = ''material_id'', col_type = ''INT REFERENCES materials(id)'', col_not_null = False, col_default = None\<rparr>,
      \<lparr>col_name = ''country_id'', col_type = ''INT REFERENCES countries(id)'', col_not_null = False, col_default = None\<rparr>,
      \<lparr>col_name = ''input_price'', col_type = ''DECIMAL(10, 2)'', col_not_null = True, col_default = None\<rparr>,
      \<lparr>col_name = ''predicted_demand'', col_type = ''DECIMAL(10, 2)'', col_not_null = False, col_default = None\<rparr>,
      \<lparr>col_name = ''decision'', col_type = ''VARCHAR(20)'', col_not_null = True, col_default = None\<rparr>,
      \<lparr>col_name = ''confidence_score'', col_type = ''DECIMAL(5, 2)'', col_not_null = False, col_default = None\<rparr>,
      \<lparr>col_name = ''created_at'', col_type = ''TIMESTAMP'', col_not_null = False,
       col_default = Some ''CURRENT_TIMESTAMP''\<rparr>]"

text \<open>
  Rows of the three tables the history query reads. A nullable column is an option; a
  DECIMAL is its exact value; a TIMESTAMP is a count of microseconds.
\<close>

record material_row =
  m_id :: int
  m_name :: string
  m_category :: string
  m_lead_time :: "int option"

record country_row =
  c_id :: int
  c_name :: string
  c_code :: "string option"

record ai_signal_row =
  s_id :: int
  material_id :: "int option"
  country_id :: "int option"
  input_price :: real
  predicted_demand :: "real option"
  decision :: string
  confidence_score :: "real option"
  created_at :: "int option"

record database =
  materials :: "material_row list"
  countries :: "country_row list"
  ai_signals :: "ai_signal_row list"

text \<open>The pool either rejects a query or runs it on the current tables.\<close>

datatype pool = QueryRejects string | Connected database

subsection \<open>The history query\<close>

record query_row =
  q_timestamp :: "int option"
  q_material :: string
  q_country :: string
  q_price :: real
  q_prediction :: "real option"
  q_signal :: string

text \<open>The two inner joins: a NULL foreign key matches no row.\<close>

definition history_join :: "database \<Rightarrow> query_row list" where
  "history_join db =
     [\<lparr>q_timestamp = created_at s, q_material = m_name m, q_country = c_name c,
       q_price = input_price s, q_prediction = predicted_demand s, q_signal = decision s\<rparr>.
      s \<leftarrow> ai_signals db,
      m \<leftarrow> materials db, material_id s = Some (m_id m),
      c \<leftarrow> countries db, country_id s = Some (c_id c)]"

text \<open>
  \<open>ORDER BY s.created_at DESC\<close>: PostgreSQL sorts NULL first in descending order. On
  options \<open>None\<close> is least, so ascending order of the negated timestamp is that order.
  SQL leaves the order of rows with equal timestamps open; the model keeps them in the
  order of the join.
\<close>

definition recency_key :: "query_row \<Rightarrow> int option" where
  "recency_key r = map_option uminus (q_timestamp r)"

definition history_query :: "database \<Rightarrow> query_row list" where
  "history_query db = take 10 (sort_key recency_key (history_join db))"

subsection \<open>getDecisionHistory\<close>

text \<open>
  The object built for each row has the six selected columns (the interface's \<open>id\<close> is
  not selected). node-postgres hands a DECIMAL over as its decimal text, NULL as null, and
  a TIMESTAMP as a Date: \<open>parseFloat\<close> of the text is the value, \<open>parseFloat(null)\<close> is
  NaN, and \<open>toISOString\<close>, the builtin, is a parameter. Calling it on null raises a
  TypeError.
\<close>

record DecisionRecord =
  dr_timestamp :: string
  dr_material :: string
  dr_country :: string
  dr_price :: jsnum
  dr_prediction :: jsnum
  dr_signal :: string

definition parseFloat_numeric :: "real option \<Rightarrow> jsnum" where
  "parseFloat_numeric v = (case v of None \<Rightarrow> NaN | Some x \<Rightarrow> Num x)"

definition serialize_row :: "(int \<Rightarrow> string) \<Rightarrow> query_row \<Rightarrow> js_error + DecisionRecord" where
  "serialize_row toISOString row =
     (case q_timestamp row of
        None \<Rightarrow> Inl TypeError
      | Some t \<Rightarrow>
          Inr \<lparr>dr_timestamp = toISOString t,
               dr_material = q_material row,
               dr_country = q_country row,
               dr_price = parseFloat_numeric (Some (q_price row)),
               dr_prediction = parseFloat_numeric (q_prediction row),
               dr_signal = q_signal row\<rparr>)"

definition getDecisionHistory_try :: "(int \<Rightarrow> string) \<Rightarrow> pool \<Rightarrow> js_error + DecisionRecord list" where
  "getDecisionHistory_try toISOString p =
     (case p of
        QueryRejects e \<Rightarrow> Inl (QueryError e)
      | Connected db \<Rightarrow> map_try (serialize_row toISOString) (history_query db))"

text \<open>
  The result of the async function: \<open>Inl\<close> would be a rejected promise, an exception
  reaching the caller.
\<close>

definition getDecisionHistory :: "(int \<Rightarrow> string) \<Rightarrow> pool \<Rightarrow> js_error + DecisionRecord list" where
  "getDecisionHistory toISOString p =
     (case getDecisionHistory_try toISOString p of
        Inl e \<Rightarrow> Inr []
      | Inr recs \<Rightarrow> Inr recs)"

section \<open>Components specified but not among the sources\<close>

subsection \<open>The intermittent-demand state machine\<close>

text \<open>
  Modelled from the spec: the intermittent-demand strategy (the Croston model of the
  AI engine) is not among the sources. The state is the smoothed inter-arrival interval
  P, the smoothed order size Z and the elapsed days E since the last non-zero demand;
  an observation is a non-zero demand of size \<open>s\<close> after interval \<open>d\<close>, or a zero
  observation; the smoothing factor is a fixed constant.
\<close>

record croston_state =
  interval_P :: real
  size_Z :: real
  elapsed_E :: nat

datatype observation = NonZero real real | Zero

inductive croston_step :: "real \<Rightarrow> croston_state \<Rightarrow> observation \<Rightarrow> croston_state \<Rightarrow> bool"
  for a :: real where
  on_demand:
    "croston_step a st (NonZero d s)
       \<lparr>interval_P = a * d + (1 - a) * interval_P st,
        size_Z = a * s + (1 - a) * size_Z st,
        elapsed_E = 0\<rparr>"
| on_zero:
    "croston_step a st Zero (st\<lparr>elapsed_E := elapsed_E st + 1\<rparr>)"

inductive croston_run :: "real \<Rightarrow> croston_state \<Rightarrow> observation list \<Rightarrow> croston_state \<Rightarrow> bool"
  for a :: real where
  run_done: "croston_run a st [] st"
| run_more: "croston_step a st ob st' \<Longrightarrow> croston_run a st' obs st'' \<Longrightarrow>
             croston_run a st (ob # obs) st''"

text \<open>The same machine as a function, for evaluation.\<close>

fun croston_next :: "real \<Rightarrow> croston_state \<Rightarrow> observation \<Rightarrow> croston_state" where
  "croston_next a st (NonZero d s) =
     \<lparr>interval_P = a * d + (1 - a) * interval_P st,
      size_Z = a * s + (1 - a) * size_Z st,
      elapsed_E = 0\<rparr>"
| "croston_next a st Zero = st\<lparr>elapsed_E := elapsed_E st + 1\<rparr>"

definition croston_final :: "real \<Rightarrow> croston_state \<Rightarrow> observation list \<Rightarrow> croston_state" where
  "croston_final a st obs = foldl (croston_next a) st obs"

subsection \<open>The procurement optimizer\<close>

text \<open>
  Modelled from the spec: the Procurement Optimizer (the linear program of the AI
  engine) is not among the sources. A forecast is a series of prices by day offset from
  now, so that day 0 is today and day \<open>lead_time_days\<close> is the delivery date. The spec
  leaves open against what a price is "trending", the holding cost, the safety-stock
  function, the quantity of a hedging purchase and the decision when the price is not
  rising while the inventory is short (or is flat); these are fields of the policy.
  The price trends up when the delivery-date forecast is above the reference price.
\<close>

datatype decision_kind = BUY | WAIT | HOLD

datatype policy_mode = Aggressive | Conservative

datatype optimizer_error = InfeasibleOptimization

record ProcurementDecision =
  pd_decision :: decision_kind
  pd_quantity :: "real option"
  pd_risk :: real

record optimizer_policy =
  mode :: policy_mode
  holding_cost :: real
  safety_stock :: "real \<Rightarrow> int \<Rightarrow> real"
  reference_price :: real
  hedge_quantity :: real
  uncovered_case :: decision_kind

definition price_at_delivery :: "(int \<Rightarrow> real) \<Rightarrow> int \<Rightarrow> real" where
  "price_at_delivery forecast_series lead_time_days = forecast_series lead_time_days"

definition objective :: "optimizer_policy \<Rightarrow> (int \<Rightarrow> real) \<Rightarrow> int \<Rightarrow> real \<Rightarrow> real \<Rightarrow> real" where
  "objective pol forecast_series lead_time_days inventory qty =
     price_at_delivery forecast_series lead_time_days * qty
     + holding_cost pol * (inventory + qty)"

definition feasible :: "optimizer_policy \<Rightarrow> real \<Rightarrow> int \<Rightarrow> real \<Rightarrow> real \<Rightarrow> bool" where
  "feasible pol risk lead_time_days inventory qty =
     (safety_stock pol risk lead_time_days \<le> inventory + qty \<and> 0 \<le> qty)"

definition optimize ::
  "optimizer_policy \<Rightarrow> (int \<Rightarrow> real) \<Rightarrow> real \<Rightarrow> real \<Rightarrow> int \<Rightarrow> optimizer_error + ProcurementDecision" where
  "optimize pol forecast_series risk current_inventory lead_time_days =
     (if lead_time_days < 0 then Inl InfeasibleOptimization
      else
        let p = price_at_delivery forecast_series lead_time_days;
            required = safety_stock pol risk lead_time_days;
            rising = (reference_price pol < p);
            falling = (p < reference_price pol)
        in if rising \<and> current_inventory < required then
             Inr \<lparr>pd_decision = BUY, pd_quantity = Some (required - current_inventory),
                  pd_risk = risk\<rparr>
           else if falling \<and> required \<le> current_inventory then
             Inr \<lparr>pd_decision = WAIT, pd_quantity = None, pd_risk = risk\<rparr>
           else if rising \<and> required \<le> current_inventory then
             (case mode pol of
                Aggressive \<Rightarrow>
                  Inr \<lparr>pd_decision = BUY, pd_quantity = Some (hedge_quantity pol), pd_risk = risk\<rparr>
              | Conservative \<Rightarrow>
                  Inr \<lparr>pd_decision = HOLD, pd_quantity = None, pd_risk = risk\<rparr>)
           else
             Inr \<lparr>pd_decision = uncovered_case pol,
                  pd_quantity = (if uncovered_case pol = BUY
                                 then Some (max 0 (required - current_inventory)) else None),
                  pd_risk = risk\<rparr>)"

section \<open>Predicates and sample inputs used by the theorems\<close>

text \<open>
  One entry of the feed in terms of the store: what \<open>material_entry\<close> computes when
  the replies are those of a reachable store.
\<close>

definition cached_entry :: "(string \<Rightarrow> jsnum) \<Rightarrow> redis_store \<Rightarrow> string \<Rightarrow> MaterialData" where
  "cached_entry pf store mat =
     \<lparr>name = mat,
      price = (case store (live_key ''Egypt'' mat ''price'') of None \<Rightarrow> Num 0 | Some s \<Rightarrow> pf s),
      trend = Num 0,
      signal = (case store (live_key ''Egypt'' mat ''signal'') of None \<Rightarrow> ''N/A'' | Some s \<Rightarrow> s),
      forecast = (case store (live_key ''Egypt'' mat ''forecast'') of None \<Rightarrow> Num 0 | Some s \<Rightarrow> pf s),
      confidence = Some (case store (live_key ''Egypt'' mat ''confidence'') of
                           None \<Rightarrow> Num 0 | Some s \<Rightarrow> pf s)\<rparr>"

text \<open>A confidence that is absent, or a number between 0 and 100.\<close>

fun conf_in_range :: "jsnum option \<Rightarrow> bool" where
  "conf_in_range None = True"
| "conf_in_range (Some (Num x)) = (0 \<le> x \<and> x \<le> 100)"
| "conf_in_range (Some _) = False"

text \<open>A \<open>parseFloat\<close> that reads the numerals of the sample stores.\<close>

definition sample_parseFloat :: "string \<Rightarrow> jsnum" where
  "sample_parseFloat s =
     (if s = ''9000.50'' then Num 9000.5
      else if s = ''9100'' then Num 9100
      else if s = ''92.5'' then Num 92.5
      else if s = ''1.5'' then Num 1.5
      else if s = ''100'' then Num 100
      else NaN)"

definition sample_store :: redis_store where
  "sample_store =
     [''live:Egypt:Copper:price'' \<mapsto> ''9000.50'',
      ''live:Egypt:Copper:trend'' \<mapsto> ''1.5'',
      ''live:Egypt:Copper:signal'' \<mapsto> ''BUY'',
      ''live:Egypt:Copper:forecast'' \<mapsto> ''9100'',
      ''live:Egypt:Copper:confidence'' \<mapsto> ''92.5'']"

definition price_only_store :: redis_store where
  "price_only_store = [''live:Egypt:Copper:price'' \<mapsto> ''9000.50'']"

text \<open>A store with two confidences, one of them for the second material.\<close>

definition confident_store :: redis_store where
  "confident_store =
     [''live:Egypt:Copper:price'' \<mapsto> ''9000.50'',
      ''live:Egypt:Copper:confidence'' \<mapsto> ''92.5'',
      ''live:Egypt:Aluminum:confidence'' \<mapsto> ''100'']"

text \<open>
  A cache that cannot be reached: the pipeline resolves with one error reply for each
  queued command.
\<close>

definition error_exec :: "string list \<Rightarrow> exec_outcome" where
  "error_exec keys = ExecReplies (map (\<lambda>k. Err ''ECONNREFUSED'') keys)"

text \<open>Upper case on the letters a to z, as \<open>toUpperCase\<close> is on ASCII strings.\<close>

definition ascii_upper :: "string \<Rightarrow> string" where
  "ascii_upper s =
     map (\<lambda>c. case map_of (zip ''abcdefghijklmnopqrstuvwxyz'' ''ABCDEFGHIJKLMNOPQRSTUVWXYZ'') c of
                None \<Rightarrow> c | Some u \<Rightarrow> u) s"

text \<open>
  A database with two materials, two countries and four decisions: the third has no
  country, so the join drops it; the fourth has no predicted demand.
\<close>

definition sample_db :: database where
  "sample_db =
     \<lparr>materials =
        [\<lparr>m_id = 1, m_name = ''Copper'', m_category = ''Shielding'', m_lead_time = Some 30\<rparr>,
         \<lparr>m_id = 2, m_name = ''PVC'', m_category = ''Polymer'', m_lead_time = Some 30\<rparr>],
      countries =
        [\<lparr>c_id = 1, c_name = ''Egypt'', c_code = Some ''818''\<rparr>,
         \<lparr>c_id = 2, c_name = ''UAE'', c_code = Some ''784''\<rparr>],
      ai_signals =
        [\<lparr>s_id = 1, material_id = Some 1, country_id = Some 1, input_price = 9000,
          predicted_demand = Some 9100, decision = ''BUY'', confidence_score = Some 92.5,
          created_at = Some 60000000\<rparr>,
         \<lparr>s_id = 2, material_id = Some 2, country_id = Some 2, input_price = 920,
          predicted_demand = Some 900, decision = ''WAIT'', confidence_score = Some 80,
          created_at = Some 120000000\<rparr>,
         \<lparr>s_id = 3, material_id = Some 1, country_id = None, input_price = 9010,
          predicted_demand = Some 9100, decision = ''BUY'', confidence_score = None,
          created_at = Some 180000000\<rparr>,
         \<lparr>s_id = 4, material_id = Some 1, country_id = Some 2, input_price = 9020,
          predicted_demand = None, decision = ''HOLD'', confidence_score = None,
          created_at = Some 90000000\<rparr>]\<rparr>"

text \<open>The same database after a decision was stored with a NULL timestamp.\<close>

definition sample_db_null_time :: database where
  "sample_db_null_time =
     sample_db\<lparr>ai_signals :=
        ai_signals sample_db @
        [\<lparr>s_id = 5, material_id = Some 2, country_id = Some 1, input_price = 930,
          predicted_demand = Some 900, decision = ''WAIT'', confidence_score = None,
          created_at = None\<rparr>]\<rparr>"

text \<open>Timestamps count microseconds from 2000-01-01; the sample ones are read in UTC.\<close>

definition sample_toISOString :: "int \<Rightarrow> string" where
  "sample_toISOString t =
     (if t = 60000000 then ''2000-01-01T00:01:00.000Z''
      else if t = 90000000 then ''2000-01-01T00:01:30.000Z''
      else if t = 120000000 then ''2000-01-01T00:02:00.000Z''
      else if t = 180000000 then ''2000-01-01T00:03:00.000Z''
      else ''2000-01-01T00:00:00.000Z'')"

text \<open>
  A Croston state with an order due, and an optimizer policy with three forecast series:
  the first two agree on day 30 and differ on day 0; the third rises today and falls by
  day 30.
\<close>

definition sample_croston :: croston_state where
  "sample_croston = \<lparr>interval_P = 60, size_Z = 1000, elapsed_E = 55\<rparr>"

definition sample_policy :: optimizer_policy where
  "sample_policy =
     \<lparr>mode = Conservative, holding_cost = 1,
      safety_stock = (\<lambda>risk lead. 100 + 100 * risk),
      reference_price = 100, hedge_quantity = 10, uncovered_case = HOLD\<rparr>"

definition series_low_today :: "int \<Rightarrow> real" where
  "series_low_today t = (if t = 0 then 90 else 110)"

definition series_high_today :: "int \<Rightarrow> real" where
  "series_high_today t = (if t = 0 then 120 else 110)"

definition series_falling :: "int \<Rightarrow> real" where
  "series_falling t = (if t = 0 then 110 else 90)"

section \<open>The live feed: what it reads and what it returns\<close>

subsection \<open>The replies of a reachable store\<close>

lemma length_MATERIALS: "length MATERIALS = 8"
  by (simp add: MATERIALS_def)

lemma length_material_keys: "length (material_keys mat) = 5"
  by (simp add: material_keys_def Let_def)

lemma concat_nth_block:
  assumes "\<forall>x\<in>set xs. length (f x) = n" "i < length xs" "j < n"
  shows "concat (map f xs) ! (i * n + j) = f (xs ! i) ! j"
  using assms
proof (induction xs arbitrary: i)
  case Nil
  then show ?case by simp
next
  case (Cons x xs)
  show ?case
  proof (cases i)
    case 0
    with Cons.prems show ?thesis by (simp add: nth_append)
  next
    case (Suc k)
    with Cons.prems have "concat (map f xs) ! (k * n + j) = f (xs ! k) ! j"
      using Cons.IH[of k] by simp
    with Suc Cons.prems show ?thesis by (simp add: nth_append)
  qed
qed

lemma length_concat_block:
  "\<forall>x\<in>set xs. length (f x) = n \<Longrightarrow> length (concat (map f xs)) = length xs * n"
  by (induction xs) auto

lemma length_pipeline_keys: "length pipeline_keys = 40"
  unfolding pipeline_keys_def
  using length_concat_block[of MATERIALS material_keys 5]
  by (simp add: length_material_keys length_MATERIALS)

lemma pipeline_keys_nth:
  assumes "i < 8" "j < 5"
  shows "pipeline_keys ! (i * 5 + j) = material_keys (MATERIALS ! i) ! j"
  unfolding pipeline_keys_def
  using concat_nth_block[of MATERIALS material_keys 5 i j] assms
  by (simp add: length_material_keys length_MATERIALS)

lemma replies_nth:
  assumes "i < 8" "j < 5"
  shows "map (\<lambda>k. Val (store k)) pipeline_keys ! (i * 5 + j)
         = Val (store (material_keys (MATERIALS ! i) ! j))"
proof -
  have "i * 5 + j < length pipeline_keys" using assms by (simp add: length_pipeline_keys)
  then show ?thesis using pipeline_keys_nth[OF assms] by simp
qed

lemma material_entry_store:
  assumes "i < 8"
  shows "material_entry pf (map (\<lambda>k. Val (store k)) pipeline_keys) i =
         Inr \<lparr>name = MATERIALS ! i,
              price = (case store (live_key ''Egypt'' (MATERIALS ! i) ''price'') of None \<Rightarrow> Num 0 | Some s \<Rightarrow> pf s),
              trend = Num 0,
              signal = (case store (live_key ''Egypt'' (MATERIALS ! i) ''signal'') of None \<Rightarrow> ''N/A'' | Some s \<Rightarrow> s),
              forecast = (case store (live_key ''Egypt'' (MATERIALS ! i) ''forecast'') of None \<Rightarrow> Num 0 | Some s \<Rightarrow> pf s),
              confidence = Some (case store (live_key ''Egypt'' (MATERIALS ! i) ''confidence'') of None \<Rightarrow> Num 0 | Some s \<Rightarrow> pf s)\<rparr>"
proof -
  let ?rs = "map (\<lambda>k. Val (store k)) pipeline_keys"
  have len: "length ?rs = 40" by (simp add: length_pipeline_keys)
  have r0: "?rs ! (i * 5) = Val (store (live_key ''Egypt'' (MATERIALS ! i) ''price''))"
    using replies_nth[OF assms, of 0 store] by (simp add: material_keys_def Let_def)
  have r2: "?rs ! (i * 5 + 2) = Val (store (live_key ''Egypt'' (MATERIALS ! i) ''signal''))"
    using replies_nth[OF assms, of 2 store] by (simp add: material_keys_def Let_def)
  have r3: "?rs ! (i * 5 + 3) = Val (store (live_key ''Egypt'' (MATERIALS ! i) ''forecast''))"
    using replies_nth[OF assms, of 3 store] by (simp add: material_keys_def Let_def)
  have r4: "?rs ! (i * 5 + 4) = Val (store (live_key ''Egypt'' (MATERIALS ! i) ''confidence''))"
    using replies_nth[OF assms, of 4 store] by (simp add: material_keys_def Let_def)
  have b: "i * 5 < 40" "i * 5 + 2 < 40" "i * 5 + 3 < 40" "i * 5 + 4 < 40" using assms by auto
  show ?thesis
    unfolding material_entry_def Let_def parseRes_float_def parseRes_string_def len r0 r2 r3 r4
    using b by (simp split: option.split)
qed

lemma map_try_all_Inr:
  "\<forall>x\<in>set xs. f x = Inr (g x) \<Longrightarrow> map_try f xs = Inr (map g xs)"
  by (induction xs) auto

lemma parse_store:
  "map_try (material_entry pf (map (\<lambda>k. Val (store k)) pipeline_keys)) [0..<length MATERIALS]
   = Inr (map (cached_entry pf store) MATERIALS)"
proof -
  have "map_try (material_entry pf (map (\<lambda>k. Val (store k)) pipeline_keys)) [0..<length MATERIALS]
        = Inr (map (\<lambda>i. cached_entry pf store (MATERIALS ! i)) [0..<length MATERIALS])"
    by (rule map_try_all_Inr) (simp add: material_entry_store cached_entry_def length_MATERIALS)
  also have "map (\<lambda>i. cached_entry pf store (MATERIALS ! i)) [0..<length MATERIALS]
             = map (cached_entry pf store) (map (\<lambda>i. MATERIALS ! i) [0..<length MATERIALS])"
    by simp
  also have "map (\<lambda>i. MATERIALS ! i) [0..<length MATERIALS] = MATERIALS"
    by (rule map_nth)
  finally show ?thesis .
qed

lemma hasData_store:
  "hasData (ExecReplies (map (\<lambda>k. Val (store k)) pipeline_keys))
   = (store (live_key ''Egypt'' ''Copper'' ''price'') \<noteq> None)"
  by (simp add: hasData_def pipeline_keys_def MATERIALS_def material_keys_def Let_def)

lemma getLiveMarketData_store:
  "getLiveMarketData pf (redis_exec store) rnd =
     (if store (live_key ''Egypt'' ''Copper'' ''price'') = None then getMockData rnd
      else map (cached_entry pf store) MATERIALS)"
  unfolding getLiveMarketData_def getLiveMarketData_try_def redis_exec_def
  by (simp add: hasData_store parse_store del: upt.simps)

lemma getLiveMarketData_down:
  "getLiveMarketData pf (\<lambda>keys. ExecThrows e) rnd = getMockData rnd"
  "getLiveMarketData pf (\<lambda>keys. ExecNull) rnd = getMockData rnd"
  "getLiveMarketData pf (\<lambda>keys. ExecReplies []) rnd = getMockData rnd"
  by (simp_all add: getLiveMarketData_def getLiveMarketData_try_def hasData_def)

subsection \<open>Any forty replies\<close>

lemma material_entry_replies:
  assumes "i < 8" "length rs = 40"
  shows "material_entry pf rs i =
         Inr \<lparr>name = MATERIALS ! i,
              price = (case rs ! (i * 5) of Val (Some s) \<Rightarrow> pf s | _ \<Rightarrow> Num 0),
              trend = Num 0,
              signal = (case rs ! (i * 5 + 2) of Val (Some s) \<Rightarrow> s | _ \<Rightarrow> ''N/A''),
              forecast = (case rs ! (i * 5 + 3) of Val (Some s) \<Rightarrow> pf s | _ \<Rightarrow> Num 0),
              confidence = Some (case rs ! (i * 5 + 4) of Val (Some s) \<Rightarrow> pf s | _ \<Rightarrow> Num 0)\<rparr>"
proof -
  have b: "i * 5 < length rs" "i * 5 + 2 < length rs" "i * 5 + 3 < length rs"
    "i * 5 + 4 < length rs" using assms by auto
  show ?thesis
    unfolding material_entry_def Let_def parseRes_float_def parseRes_string_def
    using b by (simp split: reply.split option.split)
qed

lemma parse_replies:
  assumes "length rs = 40"
  shows "map_try (material_entry pf rs) [0..<length MATERIALS] =
         Inr (map (\<lambda>i. \<lparr>name = MATERIALS ! i,
              price = (case rs ! (i * 5) of Val (Some s) \<Rightarrow> pf s | _ \<Rightarrow> Num 0),
              trend = Num 0,
              signal = (case rs ! (i * 5 + 2) of Val (Some s) \<Rightarrow> s | _ \<Rightarrow> ''N/A''),
              forecast = (case rs ! (i * 5 + 3) of Val (Some s) \<Rightarrow> pf s | _ \<Rightarrow> Num 0),
              confidence = Some (case rs ! (i * 5 + 4) of Val (Some s) \<Rightarrow> pf s | _ \<Rightarrow> Num 0)\<rparr>)
              [0..<length MATERIALS])"
  by (rule map_try_all_Inr) (simp add: material_entry_replies[OF _ assms] length_MATERIALS)

lemma getLiveMarketData_replies:
  assumes "exec pipeline_keys = ExecReplies rs" "length rs = 40"
  shows "getLiveMarketData pf exec rnd =
     (if hd rs = Val None then getMockData rnd
      else map (\<lambda>i. \<lparr>name = MATERIALS ! i,
              price = (case rs ! (i * 5) of Val (Some s) \<Rightarrow> pf s | _ \<Rightarrow> Num 0),
              trend = Num 0,
              signal = (case rs ! (i * 5 + 2) of Val (Some s) \<Rightarrow> s | _ \<Rightarrow> ''N/A''),
              forecast = (case rs ! (i * 5 + 3) of Val (Some s) \<Rightarrow> pf s | _ \<Rightarrow> Num 0),
              confidence = Some (case rs ! (i * 5 + 4) of Val (Some s) \<Rightarrow> pf s | _ \<Rightarrow> Num 0)\<rparr>)
              [0..<8])"
proof -
  from assms(2) obtain r rs' where rs: "rs = r # rs'" by (cases rs) auto
  then have hd: "hasData (ExecReplies rs) = (hd rs \<noteq> Val None)"
    by (simp add: hasData_def)
  show ?thesis
    unfolding getLiveMarketData_def getLiveMarketData_try_def assms(1)
    using hd parse_replies[OF assms(2), of pf]
    by (simp add: length_MATERIALS del: upt.simps)
qed

subsection \<open>Mock data\<close>

lemma mock_from_names: "map name (mock_from rnd k ms) = ms"
  by (induction ms arbitrary: k) auto

lemma mock_from_confidence:
  "map confidence (mock_from rnd k ms) = replicate (length ms) (Some (Num 85))"
  by (induction ms arbitrary: k) auto

lemma mock_from_signal:
  "set (map signal (mock_from rnd k ms)) \<subseteq> {''BUY'', ''WAIT''}"
  by (induction ms arbitrary: k) auto

lemma map_cached_entry:
  "map name (map (cached_entry pf store) ms) = ms"
  "map price (map (cached_entry pf store) ms) =
     map (\<lambda>mat. case store (live_key ''Egypt'' mat ''price'') of None \<Rightarrow> Num 0 | Some s \<Rightarrow> pf s) ms"
  "map signal (map (cached_entry pf store) ms) =
     map (\<lambda>mat. case store (live_key ''Egypt'' mat ''signal'') of None \<Rightarrow> ''N/A'' | Some s \<Rightarrow> s) ms"
  "map forecast (map (cached_entry pf store) ms) =
     map (\<lambda>mat. case store (live_key ''Egypt'' mat ''forecast'') of None \<Rightarrow> Num 0 | Some s \<Rightarrow> pf s) ms"
  "map confidence (map (cached_entry pf store) ms) =
     map (\<lambda>mat. Some (case store (live_key ''Egypt'' mat ''confidence'') of None \<Rightarrow> Num 0 | Some s \<Rightarrow> pf s)) ms"
  "map trend (map (cached_entry pf store) ms) = replicate (length ms) (Num 0)"
  by (simp_all add: cached_entry_def comp_def map_replicate_const)

lemma mock_from_eq:
  "mock_from rnd k ms =
     map (\<lambda>i. \<lparr>name = ms ! i,
                price = Num (of_int \<lfloor>rnd (k + 4 * i) * 5000\<rfloor> + 1000),
                trend = Num (rnd (k + 4 * i + 1) * 5),
                signal = (if rnd (k + 4 * i + 2) > 0.5 then ''BUY'' else ''WAIT''),
                forecast = Num (of_int \<lfloor>rnd (k + 4 * i + 3) * 6000\<rfloor> + 1000),
                confidence = Some (Num 85)\<rparr>) [0..<length ms]"
proof (induction ms arbitrary: k)
  case Nil
  show ?case by simp
next
  case (Cons m ms)
  have "[0..<length (m # ms)] = 0 # map Suc [0..<length ms]"
    by (simp add: upt_conv_Cons map_Suc_upt del: upt.simps)
  then show ?case
    using Cons.IH[of "k + 4"]
    by (simp add: comp_def algebra_simps del: upt.simps)
qed

lemma getMockData_eq:
  "getMockData rnd =
     map (\<lambda>i. \<lparr>name = MATERIALS ! i,
                price = Num (of_int \<lfloor>rnd (4 * i) * 5000\<rfloor> + 1000),
                trend = Num (rnd (4 * i + 1) * 5),
                signal = (if rnd (4 * i + 2) > 0.5 then ''BUY'' else ''WAIT''),
                forecast = Num (of_int \<lfloor>rnd (4 * i + 3) * 6000\<rfloor> + 1000),
                confidence = Some (Num 85)\<rparr>) [0..<8]"
  unfolding getMockData_def using mock_from_eq[of rnd 0 MATERIALS]
  by (simp add: length_MATERIALS del: upt.simps)

lemma empty_store_replies:
  "redis_exec Map.empty pipeline_keys = ExecReplies (replicate 40 (Val None))"
  by (simp add: redis_exec_def map_replicate_const length_pipeline_keys)

subsection \<open>Claim C1: the feed is the cache's values, or mock data\<close>

text \<open>
  C1, as amended. Only the country Egypt is read. When the reply for the first key
  (Copper's price) is not null, the names of the feed are the eight listed materials and
  the price, signal, forecast and confidence of each entry are read from the replies to
  \<open>live:Egypt:material:field\<close>: the stored string (parsed, for the numbers), and 0, or
  "N/A" for the signal, where the key is missing or the reply is an error. So a cache that
  answers every command with an error gives a feed of 0 and "N/A". When that first reply
  is null, as for an empty cache, and when \<open>exec\<close> rejects or resolves to null, the feed
  is \<open>getMockData\<close>: for the i-th material four successive draws r give the price
  floor(5000 r) + 1000, the trend 5 r, the signal BUY if r > 0.5 and WAIT otherwise, and the
  forecast floor(6000 r) + 1000, with the confidence 85.
\<close>

theorem getLiveMarketData_cache_or_mock:
  "(store (live_key ''Egypt'' ''Copper'' ''price'') \<noteq> None \<longrightarrow>
      map name (getLiveMarketData pf (redis_exec store) rnd) = MATERIALS \<and>
      map price (getLiveMarketData pf (redis_exec store) rnd) =
        map (\<lambda>mat. case store (live_key ''Egypt'' mat ''price'') of
                      None \<Rightarrow> Num 0 | Some s \<Rightarrow> pf s) MATERIALS \<and>
      map signal (getLiveMarketData pf (redis_exec store) rnd) =
        map (\<lambda>mat. case store (live_key ''Egypt'' mat ''signal'') of
                      None \<Rightarrow> ''N/A'' | Some s \<Rightarrow> s) MATERIALS \<and>
      map forecast (getLiveMarketData pf (redis_exec store) rnd) =
        map (\<lambda>mat. case store (live_key ''Egypt'' mat ''forecast'') of
                      None \<Rightarrow> Num 0 | Some s \<Rightarrow> pf s) MATERIALS \<and>
      map confidence (getLiveMarketData pf (redis_exec store) rnd) =
        map (\<lambda>mat. Some (case store (live_key ''Egypt'' mat ''confidence'') of
                      None \<Rightarrow> Num 0 | Some s \<Rightarrow> pf s)) MATERIALS)
   \<and> (store (live_key ''Egypt'' ''Copper'' ''price'') = None \<longrightarrow>
      getLiveMarketData pf (redis_exec store) rnd = getMockData rnd)
   \<and> (exec pipeline_keys = ExecReplies rs \<and> length rs = 40 \<and> hd rs \<noteq> Val None \<longrightarrow>
      map name (getLiveMarketData pf exec rnd) = MATERIALS \<and>
      map price (getLiveMarketData pf exec rnd) =
        map (\<lambda>i. case rs ! (i * 5) of Val (Some s) \<Rightarrow> pf s | _ \<Rightarrow> Num 0) [0..<8] \<and>
      map signal (getLiveMarketData pf exec rnd) =
        map (\<lambda>i. case rs ! (i * 5 + 2) of Val (Some s) \<Rightarrow> s | _ \<Rightarrow> ''N/A'') [0..<8] \<and>
      map forecast (getLiveMarketData pf exec rnd) =
        map (\<lambda>i. case rs ! (i * 5 + 3) of Val (Some s) \<Rightarrow> pf s | _ \<Rightarrow> Num 0) [0..<8] \<and>
      map confidence (getLiveMarketData pf exec rnd) =
        map (\<lambda>i. Some (case rs ! (i * 5 + 4) of Val (Some s) \<Rightarrow> pf s | _ \<Rightarrow> Num 0)) [0..<8])
   \<and> (exec pipeline_keys = ExecReplies rs \<and> length rs = 40 \<and> hd rs = Val None \<longrightarrow>
      getLiveMarketData pf exec rnd = getMockData rnd)
   \<and> getLiveMarketData pf (\<lambda>keys. ExecThrows e) rnd = getMockData rnd
   \<and> getLiveMarketData pf (\<lambda>keys. ExecNull) rnd = getMockData rnd
   \<and> getMockData rnd =
       map (\<lambda>i. \<lparr>name = MATERIALS ! i,
                  price = Num (of_int \<lfloor>rnd (4 * i) * 5000\<rfloor> + 1000),
                  trend = Num (rnd (4 * i + 1) * 5),
                  signal = (if rnd (4 * i + 2) > 0.5 then ''BUY'' else ''WAIT''),
                  forecast = Num (of_int \<lfloor>rnd (4 * i + 3) * 6000\<rfloor> + 1000),
                  confidence = Some (Num 85)\<rparr>) [0..<8]"
proof -
  have names: "map (\<lambda>i. MATERIALS ! i) [0..<8] = MATERIALS"
    using map_nth[of MATERIALS] by (simp add: length_MATERIALS del: upt.simps)
  have store: "(store (live_key ''Egypt'' ''Copper'' ''price'') \<noteq> None \<longrightarrow>
      map name (getLiveMarketData pf (redis_exec store) rnd) = MATERIALS \<and>
      map price (getLiveMarketData pf (redis_exec store) rnd) =
        map (\<lambda>mat. case store (live_key ''Egypt'' mat ''price'') of
                      None \<Rightarrow> Num 0 | Some s \<Rightarrow> pf s) MATERIALS \<and>
      map signal (getLiveMarketData pf (redis_exec store) rnd) =
        map (\<lambda>mat. case store (live_key ''Egypt'' mat ''signal'') of
                      None \<Rightarrow> ''N/A'' | Some s \<Rightarrow> s) MATERIALS \<and>
      map forecast (getLiveMarketData pf (redis_exec store) rnd) =
        map (\<lambda>mat. case store (live_key ''Egypt'' mat ''forecast'') of
                      None \<Rightarrow> Num 0 | Some s \<Rightarrow> pf s) MATERIALS \<and>
      map confidence (getLiveMarketData pf (redis_exec store) rnd) =
        map (\<lambda>mat. Some (case store (live_key ''Egypt'' mat ''confidence'') of
                      None \<Rightarrow> Num 0 | Some s \<Rightarrow> pf s)) MATERIALS)
   \<and> (store (live_key ''Egypt'' ''Copper'' ''price'') = None \<longrightarrow>
      getLiveMarketData pf (redis_exec store) rnd = getMockData rnd)"
    by (simp add: getLiveMarketData_store map_cached_entry del: map_map)
  have replies: "exec pipeline_keys = ExecReplies rs \<and> length rs = 40 \<and> hd rs \<noteq> Val None \<longrightarrow>
      map name (getLiveMarketData pf exec rnd) = MATERIALS \<and>
      map price (getLiveMarketData pf exec rnd) =
        map (\<lambda>i. case rs ! (i * 5) of Val (Some s) \<Rightarrow> pf s | _ \<Rightarrow> Num 0) [0..<8] \<and>
      map signal (getLiveMarketData pf exec rnd) =
        map (\<lambda>i. case rs ! (i * 5 + 2) of Val (Some s) \<Rightarrow> s | _ \<Rightarrow> ''N/A'') [0..<8] \<and>
      map forecast (getLiveMarketData pf exec rnd) =
        map (\<lambda>i. case rs ! (i * 5 + 3) of Val (Some s) \<Rightarrow> pf s | _ \<Rightarrow> Num 0) [0..<8] \<and>
      map confidence (getLiveMarketData pf exec rnd) =
        map (\<lambda>i. Some (case rs ! (i * 5 + 4) of Val (Some s) \<Rightarrow> pf s | _ \<Rightarrow> Num 0)) [0..<8]"
  proof
    assume a: "exec pipeline_keys = ExecReplies rs \<and> length rs = 40 \<and> hd rs \<noteq> Val None"
    then have ex: "exec pipeline_keys = ExecReplies rs" and len: "length rs = 40"
      and hd: "hd rs \<noteq> Val None" by auto
    show "map name (getLiveMarketData pf exec rnd) = MATERIALS \<and>
      map price (getLiveMarketData pf exec rnd) =
        map (\<lambda>i. case rs ! (i * 5) of Val (Some s) \<Rightarrow> pf s | _ \<Rightarrow> Num 0) [0..<8] \<and>
      map signal (getLiveMarketData pf exec rnd) =
        map (\<lambda>i. case rs ! (i * 5 + 2) of Val (Some s) \<Rightarrow> s | _ \<Rightarrow> ''N/A'') [0..<8] \<and>
      map forecast (getLiveMarketData pf exec rnd) =
        map (\<lambda>i. case rs ! (i * 5 + 3) of Val (Some s) \<Rightarrow> pf s | _ \<Rightarrow> Num 0) [0..<8] \<and>
      map confidence (getLiveMarketData pf exec rnd) =
        map (\<lambda>i. Some (case rs ! (i * 5 + 4) of Val (Some s) \<Rightarrow> pf s | _ \<Rightarrow> Num 0)) [0..<8]"
      unfolding getLiveMarketData_replies[where exec = exec and rs = rs and pf = pf
          and rnd = rnd, OF ex len]
      using hd names by (simp add: comp_def del: upt.simps)
  qed
  have nulls: "exec pipeline_keys = ExecReplies rs \<and> length rs = 40 \<and> hd rs = Val None \<longrightarrow>
      getLiveMarketData pf exec rnd = getMockData rnd"
    using getLiveMarketData_replies[where exec = exec and rs = rs and pf = pf
        and rnd = rnd] by simp
  from store replies nulls getLiveMarketData_down(1)[of pf e rnd]
    getLiveMarketData_down(2)[of pf rnd] getMockData_eq[of rnd]
  show ?thesis by blast
qed

lemma sample_store_eval:
  "getLiveMarketData sample_parseFloat (redis_exec sample_store) rnd =
     [\<lparr>name = ''Copper'', price = Num 9000.5, trend = Num 0, signal = ''BUY'',
       forecast = Num 9100, confidence = Some (Num 92.5)\<rparr>,
      \<lparr>name = ''Aluminum'', price = Num 0, trend = Num 0, signal = ''N/A'',
       forecast = Num 0, confidence = Some (Num 0)\<rparr>,
      \<lparr>name = ''XLPE Polymer'', price = Num 0, trend = Num 0, signal = ''N/A'',
       forecast = Num 0, confidence = Some (Num 0)\<rparr>,
      \<lparr>name = ''PVC Compound'', price = Num 0, trend = Num 0, signal = ''N/A'',
       forecast = Num 0, confidence = Some (Num 0)\<rparr>,
      \<lparr>name = ''Mica Tape'', price = Num 0, trend = Num 0, signal = ''N/A'',
       forecast = Num 0, confidence = Some (Num 0)\<rparr>,
      \<lparr>name = ''Steel Tape'', price = Num 0, trend = Num 0, signal = ''N/A'',
       forecast = Num 0, confidence = Some (Num 0)\<rparr>,
      \<lparr>name = ''Lead Ingots'', price = Num 0, trend = Num 0, signal = ''N/A'',
       forecast = Num 0, confidence = Some (Num 0)\<rparr>,
      \<lparr>name = ''Masterbatch'', price = Num 0, trend = Num 0, signal = ''N/A'',
       forecast = Num 0, confidence = Some (Num 0)\<rparr>]"
  by (simp add: getLiveMarketData_store cached_entry_def sample_store_def
      sample_parseFloat_def live_key_def MATERIALS_def)

theorem getLiveMarketData_cache_or_mock_witness:
  "sample_store (live_key ''Egypt'' ''Copper'' ''price'') = Some ''9000.50''
   \<and> map price (getLiveMarketData sample_parseFloat (redis_exec sample_store) (\<lambda>k. 0)) =
       [Num 9000.5, Num 0, Num 0, Num 0, Num 0, Num 0, Num 0, Num 0]
   \<and> map signal (getLiveMarketData sample_parseFloat (redis_exec sample_store) (\<lambda>k. 0)) =
       [''BUY'', ''N/A'', ''N/A'', ''N/A'', ''N/A'', ''N/A'', ''N/A'', ''N/A'']
   \<and> Map.empty (live_key ''Egypt'' ''Copper'' ''price'') = (None :: string option)
   \<and> getLiveMarketData sample_parseFloat (redis_exec Map.empty) (\<lambda>k. 0) = getMockData (\<lambda>k. 0)
   \<and> redis_exec Map.empty pipeline_keys = ExecReplies (replicate 40 (Val None))
   \<and> hd (replicate 40 (Val None)) = Val None
   \<and> error_exec pipeline_keys = ExecReplies (replicate 40 (Err ''ECONNREFUSED''))
   \<and> hd (replicate 40 (Err ''ECONNREFUSED'')) = Err ''ECONNREFUSED''
   \<and> map price (getLiveMarketData sample_parseFloat error_exec (\<lambda>k. 0)) = replicate 8 (Num 0)
   \<and> map signal (getLiveMarketData sample_parseFloat error_exec (\<lambda>k. 0)) = replicate 8 ''N/A''
   \<and> map confidence (getLiveMarketData sample_parseFloat error_exec (\<lambda>k. 0))
       = replicate 8 (Some (Num 0))"
proof -
  have errs: "error_exec pipeline_keys = ExecReplies (replicate 40 (Err ''ECONNREFUSED''))"
    by (simp add: error_exec_def map_replicate_const length_pipeline_keys)
  have hd_err: "hd (replicate 40 (Err ''ECONNREFUSED'')) \<noteq> Val None"
    by (simp add: eval_nat_numeral)
  note t_store = getLiveMarketData_cache_or_mock[where store = sample_store
      and pf = sample_parseFloat and rnd = "\<lambda>k. 0" and exec = error_exec
      and rs = "replicate 40 (Err ''ECONNREFUSED'')"]
  note t_empty = getLiveMarketData_cache_or_mock[where store = Map.empty
      and pf = sample_parseFloat and rnd = "\<lambda>k. 0" and exec = "redis_exec Map.empty"
      and rs = "replicate 40 (Val None)"]
  from t_store errs hd_err have err_feed:
    "map price (getLiveMarketData sample_parseFloat error_exec (\<lambda>k. 0)) =
        map (\<lambda>i. case replicate 40 (Err ''ECONNREFUSED'') ! (i * 5) of
                    Val (Some s) \<Rightarrow> sample_parseFloat s | _ \<Rightarrow> Num 0) [0..<8]"
    "map signal (getLiveMarketData sample_parseFloat error_exec (\<lambda>k. 0)) =
        map (\<lambda>i. case replicate 40 (Err ''ECONNREFUSED'') ! (i * 5 + 2) of
                    Val (Some s) \<Rightarrow> s | _ \<Rightarrow> ''N/A'') [0..<8]"
    "map confidence (getLiveMarketData sample_parseFloat error_exec (\<lambda>k. 0)) =
        map (\<lambda>i. Some (case replicate 40 (Err ''ECONNREFUSED'') ! (i * 5 + 4) of
                    Val (Some s) \<Rightarrow> sample_parseFloat s | _ \<Rightarrow> Num 0)) [0..<8]"
    by simp_all
  from t_empty empty_store_replies have empty_feed:
    "getLiveMarketData sample_parseFloat (redis_exec Map.empty) (\<lambda>k. 0) = getMockData (\<lambda>k. 0)"
    by (simp add: eval_nat_numeral)
  from t_store have stored:
    "map price (getLiveMarketData sample_parseFloat (redis_exec sample_store) (\<lambda>k. 0)) =
       [Num 9000.5, Num 0, Num 0, Num 0, Num 0, Num 0, Num 0, Num 0]"
    "map signal (getLiveMarketData sample_parseFloat (redis_exec sample_store) (\<lambda>k. 0)) =
       [''BUY'', ''N/A'', ''N/A'', ''N/A'', ''N/A'', ''N/A'', ''N/A'', ''N/A'']"
    by (simp_all add: sample_store_def live_key_def MATERIALS_def sample_parseFloat_def)
  have k: "sample_store (live_key ''Egypt'' ''Copper'' ''price'') = Some ''9000.50''"
    by (simp add: sample_store_def live_key_def)
  show ?thesis
    unfolding err_feed
    using k stored empty_feed empty_store_replies errs
    by (simp add: eval_nat_numeral)
qed

text \<open>
  C1 as stated fails: with an empty cache the feed holds drawn values, which change with
  the draws and come from no stored decision.
\<close>

theorem getLiveMarketData_fabricates_counterexample:
  "redis_exec Map.empty pipeline_keys = ExecReplies (replicate 40 (Val None))
   \<and> map price (getLiveMarketData sample_parseFloat (redis_exec Map.empty) (\<lambda>k. 3/4))
     = replicate 8 (Num 4750)
   \<and> map signal (getLiveMarketData sample_parseFloat (redis_exec Map.empty) (\<lambda>k. 3/4))
     = replicate 8 ''BUY''
   \<and> map price (getLiveMarketData sample_parseFloat (redis_exec Map.empty) (\<lambda>k. 0))
     = replicate 8 (Num 1000)
   \<and> map signal (getLiveMarketData sample_parseFloat (redis_exec Map.empty) (\<lambda>k. 0))
     = replicate 8 ''WAIT''"
proof -
  have "getLiveMarketData sample_parseFloat (redis_exec Map.empty) rnd = getMockData rnd" for rnd
    by (simp add: getLiveMarketData_store)
  then show ?thesis
    using empty_store_replies
    by (simp add: getMockData_def MATERIALS_def eval_nat_numeral)
qed

subsection \<open>Claim C10: the aggregate confidence\<close>

lemma map_try_length: "map_try f xs = Inr ys \<Longrightarrow> length ys = length xs"
proof (induction xs arbitrary: ys)
  case Nil
  then show ?case by simp
next
  case (Cons x xs)
  then show ?case by (auto split: sum.splits)
qed

lemma length_getMockData: "length (getMockData rnd) = 8"
  using mock_from_names[of rnd 0 MATERIALS] length_MATERIALS
  unfolding getMockData_def by (metis length_map)

lemma length_getLiveMarketData: "length (getLiveMarketData pf exec rnd) = 8"
proof (cases "getLiveMarketData pf exec rnd = getMockData rnd")
  case True
  then show ?thesis by (simp add: length_getMockData)
next
  case False
  then obtain rs where "map_try (material_entry pf rs) [0..<length MATERIALS]
                 = Inr (getLiveMarketData pf exec rnd)"
    unfolding getLiveMarketData_def getLiveMarketData_try_def
    by (auto split: exec_outcome.splits if_splits sum.splits)
  from map_try_length[OF this] show ?thesis by (simp add: length_MATERIALS)
qed

lemma js_or_num_share:
  "conf_in_range c \<Longrightarrow>
   js_or_num c (Num 85) = Num (case c of Some (Num x) \<Rightarrow> if x = 0 then 85 else x | _ \<Rightarrow> 85)"
  by (cases c rule: conf_in_range.cases) auto

lemma share_range:
  "conf_in_range c \<Longrightarrow>
   0 \<le> (case c of Some (Num x) \<Rightarrow> if x = 0 then 85 else x | _ \<Rightarrow> (85::real)) \<and>
   (case c of Some (Num x) \<Rightarrow> if x = 0 then 85 else x | _ \<Rightarrow> (85::real)) \<le> 100"
  by (cases c rule: conf_in_range.cases) auto

lemma foldl_conf_sum:
  "\<forall>m\<in>set ms. conf_in_range (confidence m) \<Longrightarrow>
   foldl (\<lambda>acc curr. js_add acc (js_or_num (confidence curr) (Num 85))) (Num a) ms
   = Num (a + sum_list (map (\<lambda>m. case confidence m of
                                     Some (Num x) \<Rightarrow> if x = 0 then 85 else x | _ \<Rightarrow> 85) ms))"
proof (induction ms arbitrary: a)
  case Nil
  show ?case by simp
next
  case (Cons m ms)
  from Cons.prems have m: "conf_in_range (confidence m)"
    and rest: "\<forall>m\<in>set ms. conf_in_range (confidence m)" by simp_all
  show ?case
    using Cons.IH[OF rest] js_or_num_share[OF m] by (simp add: add.assoc)
qed

lemma sum_share_range:
  "\<forall>m\<in>set ms. conf_in_range (confidence m) \<Longrightarrow>
   0 \<le> sum_list (map (\<lambda>m. case confidence m of
                             Some (Num x) \<Rightarrow> if x = 0 then 85 else x | _ \<Rightarrow> (85::real)) ms) \<and>
   sum_list (map (\<lambda>m. case confidence m of
                        Some (Num x) \<Rightarrow> if x = 0 then 85 else x | _ \<Rightarrow> (85::real)) ms)
     \<le> 100 * real (length ms)"
proof (induction ms)
  case Nil
  show ?case by simp
next
  case (Cons m ms)
  from Cons.prems have m: "conf_in_range (confidence m)"
    and rest: "\<forall>m\<in>set ms. conf_in_range (confidence m)" by simp_all
  show ?case using Cons.IH[OF rest] share_range[OF m] by (simp add: algebra_simps)
qed

text \<open>
  C10. If every confidence present in the list returned by \<open>getLiveMarketData\<close> is a
  number between 0 and 100, the confidence returned by \<open>getScannerStatus\<close> is the floor
  of the average over the eight entries, where an entry adds its confidence, and the
  default 85 when its confidence is absent or 0; that floor is an integer between 0 and
  100.
\<close>

theorem getScannerStatus_confidence_range:
  "(\<forall>m\<in>set (getLiveMarketData pf exec rnd). conf_in_range (confidence m)) \<longrightarrow>
     status_confidence (getScannerStatus pf exec rnd d) =
       Num (of_int \<lfloor>sum_list (map (\<lambda>m. case confidence m of
                                           Some (Num x) \<Rightarrow> if x = 0 then 85 else x
                                         | _ \<Rightarrow> 85)
                                   (getLiveMarketData pf exec rnd)) / 8\<rfloor>)
     \<and> 0 \<le> \<lfloor>sum_list (map (\<lambda>m. case confidence m of
                                     Some (Num x) \<Rightarrow> if x = 0 then 85 else x
                                   | _ \<Rightarrow> (85::real))
                             (getLiveMarketData pf exec rnd)) / 8\<rfloor>
     \<and> \<lfloor>sum_list (map (\<lambda>m. case confidence m of
                                 Some (Num x) \<Rightarrow> if x = 0 then 85 else x
                               | _ \<Rightarrow> (85::real))
                         (getLiveMarketData pf exec rnd)) / 8\<rfloor> \<le> 100"
proof
  let ?feed = "getLiveMarketData pf exec rnd"
  let ?sum = "sum_list (map (\<lambda>m. case confidence m of
                                  Some (Num x) \<Rightarrow> if x = 0 then 85 else x
                                | _ \<Rightarrow> (85::real)) ?feed)"
  assume ok: "\<forall>m\<in>set ?feed. conf_in_range (confidence m)"
  have len: "length ?feed = 8" by (rule length_getLiveMarketData)
  have total: "totalConf ?feed = Num ?sum"
    unfolding totalConf_def using foldl_conf_sum[OF ok, of 0] by simp
  have avg: "status_confidence (getScannerStatus pf exec rnd d) = Num (of_int \<lfloor>?sum / 8\<rfloor>)"
    by (simp add: getScannerStatus_def Let_def avgConf_def total len)
  from sum_share_range[OF ok] len have "0 \<le> ?sum" "?sum \<le> 800" by simp_all
  then have "0 \<le> \<lfloor>?sum / 8\<rfloor>" "\<lfloor>?sum / 8\<rfloor> \<le> 100"
    by (simp_all add: floor_le_iff)
  with avg show "status_confidence (getScannerStatus pf exec rnd d) = Num (of_int \<lfloor>?sum / 8\<rfloor>)
     \<and> 0 \<le> \<lfloor>?sum / 8\<rfloor> \<and> \<lfloor>?sum / 8\<rfloor> \<le> 100" by blast
qed

lemma confident_store_eval:
  "map confidence (getLiveMarketData sample_parseFloat (redis_exec confident_store) rnd) =
     [Some (Num 92.5), Some (Num 100), Some (Num 0), Some (Num 0),
      Some (Num 0), Some (Num 0), Some (Num 0), Some (Num 0)]"
  by (simp add: getLiveMarketData_store cached_entry_def confident_store_def
      sample_parseFloat_def live_key_def MATERIALS_def)

theorem getScannerStatus_confidence_range_witness:
  "list_all (\<lambda>c. conf_in_range c)
     (map confidence (getLiveMarketData sample_parseFloat (redis_exec confident_store) (\<lambda>k. 0)))
   \<and> map confidence (getLiveMarketData sample_parseFloat (redis_exec confident_store) (\<lambda>k. 0))
       = [Some (Num 92.5), Some (Num 100), Some (Num 0), Some (Num 0),
          Some (Num 0), Some (Num 0), Some (Num 0), Some (Num 0)]
   \<and> status_confidence
        (getScannerStatus sample_parseFloat (redis_exec confident_store) (\<lambda>k. 0) (1/2)) = Num 87"
proof -
  let ?feed = "getLiveMarketData sample_parseFloat (redis_exec confident_store) (\<lambda>k. 0)"
  have confs: "map confidence ?feed =
     [Some (Num 92.5), Some (Num 100), Some (Num 0), Some (Num 0),
      Some (Num 0), Some (Num 0), Some (Num 0), Some (Num 0)]"
    by (rule confident_store_eval)
  have all: "\<forall>c\<in>set (map confidence ?feed). conf_in_range c"
    unfolding confs by simp
  then have ok: "\<forall>m\<in>set ?feed. conf_in_range (confidence m)" by simp
  have sum: "sum_list (map (\<lambda>m. case confidence m of
                                  Some (Num x) \<Rightarrow> if x = 0 then 85 else x
                                | _ \<Rightarrow> (85::real)) ?feed)
             = sum_list (map (\<lambda>c. case c of
                                  Some (Num x) \<Rightarrow> if x = 0 then 85 else x
                                | _ \<Rightarrow> (85::real)) (map confidence ?feed))"
    by (simp add: comp_def)
  from getScannerStatus_confidence_range[of sample_parseFloat "redis_exec confident_store"
      "\<lambda>k. 0" "1/2"] ok
  have "status_confidence
        (getScannerStatus sample_parseFloat (redis_exec confident_store) (\<lambda>k. 0) (1/2))
        = Num (of_int \<lfloor>sum_list (map (\<lambda>m. case confidence m of
                                  Some (Num x) \<Rightarrow> if x = 0 then 85 else x
                                | _ \<Rightarrow> (85::real)) ?feed) / 8\<rfloor>)"
    by blast
  then have "status_confidence
        (getScannerStatus sample_parseFloat (redis_exec confident_store) (\<lambda>k. 0) (1/2)) = Num 87"
    unfolding sum confs by simp
  with confs all show ?thesis by (simp add: list_all_iff)
qed

subsection \<open>Claim C5: the decision values of the dashboard\<close>

lemma map_try_Inr_elems:
  "map_try f xs = Inr ys \<Longrightarrow> y \<in> set ys \<Longrightarrow> \<exists>x\<in>set xs. f x = Inr y"
proof (induction xs arbitrary: ys)
  case Nil
  then show ?case by simp
next
  case (Cons x xs)
  then show ?case
    by (auto split: sum.splits)
qed

lemma parseRes_string_values:
  "parseRes_string rs idx = Inr s \<Longrightarrow> s = ''N/A'' \<or> Val (Some s) \<in> set rs"
  by (auto simp: parseRes_string_def split: if_splits reply.splits option.splits
      dest: nth_mem)

lemma material_entry_signal:
  "material_entry pf rs i = Inr m \<Longrightarrow> signal m = ''N/A'' \<or> Val (Some (signal m)) \<in> set rs"
  unfolding material_entry_def Let_def
  by (auto split: sum.splits dest: parseRes_string_values)

lemma getMockData_signal:
  "s \<in> set (map signal (getMockData rnd)) \<Longrightarrow> s = ''BUY'' \<or> s = ''WAIT''"
  using mock_from_signal[of rnd 0 MATERIALS] unfolding getMockData_def by auto

lemma feed_signal_cases:
  assumes "s \<in> set (map signal (getLiveMarketData pf exec rnd))"
  shows "s = ''BUY'' \<or> s = ''WAIT'' \<or> s = ''N/A'' \<or>
         (\<exists>rs. exec pipeline_keys = ExecReplies rs \<and> Val (Some s) \<in> set rs)"
proof (cases "getLiveMarketData pf exec rnd = getMockData rnd")
  case True
  with assms show ?thesis using getMockData_signal[of s rnd] by auto
next
  case False
  then obtain rs where rs: "exec pipeline_keys = ExecReplies rs"
    and parsed: "map_try (material_entry pf rs) [0..<length MATERIALS]
                 = Inr (getLiveMarketData pf exec rnd)"
    unfolding getLiveMarketData_def getLiveMarketData_try_def
    by (auto split: exec_outcome.splits if_splits sum.splits)
  from assms obtain m where m: "m \<in> set (getLiveMarketData pf exec rnd)" "s = signal m"
    by auto
  from map_try_Inr_elems[OF parsed m(1)] obtain i where "material_entry pf rs i = Inr m"
    by blast
  from material_entry_signal[OF this] m(2) rs show ?thesis by auto
qed

lemma decisionClass_cases:
  "decisionClass d = (if d = Some ''HOLD'' then ''hold'' else if d = Some ''BUY'' then ''buy'' else ''wait'')"
  by (simp add: decisionClass_def Let_def)

lemma ascii_upper_eval:
  "ascii_upper ''buy'' = ''BUY''" "ascii_upper ''Hold'' = ''HOLD''" "ascii_upper [] = []"
  "ascii_upper ''sell'' = ''SELL''"
  by (simp_all add: ascii_upper_def)

lemma feed_signal_replies:
  assumes "exec pipeline_keys = ExecReplies rs \<and> length rs = 40 \<and> hd rs \<noteq> Val None"
  shows "map signal (getLiveMarketData pf exec rnd) =
          map (\<lambda>i. case rs ! (i * 5 + 2) of Val (Some s) \<Rightarrow> s | _ \<Rightarrow> ''N/A'') [0..<8]"
proof -
  from assms have ex: "exec pipeline_keys = ExecReplies rs" and len: "length rs = 40"
    and hd: "hd rs \<noteq> Val None" by auto
  show ?thesis
    unfolding getLiveMarketData_replies[where exec = exec and rs = rs and pf = pf
        and rnd = rnd, OF ex len]
    using hd by (simp add: comp_def del: upt.simps)
qed

lemma mock_signal_eq:
  "map signal (getMockData rnd) =
     map (\<lambda>i. if rnd (4 * i + 2) > 0.5 then ''BUY'' else ''WAIT'') [0..<8]"
  unfolding getMockData_eq by (simp add: comp_def del: upt.simps)

text \<open>
  C5, as amended. The decision of each entry of the live feed is the string the cache
  returned for the material's signal key, whatever that string is, and the placeholder
  "N/A" where the key is missing or the reply is an error; in mock data it is BUY or WAIT
  by a draw. So every decision of the feed is BUY, WAIT, "N/A" or a string the cache
  returned. In the copy of \<open>createMaterialCard\<close> in src/unnamed/part_005 the class of the
  card is buy exactly for the decision BUY, hold exactly for HOLD and wait otherwise, and
  the badge shows the decision text itself, or WAIT when the decision is absent or empty.
  In the copy of static/js/app.js the same holds of the upper-cased decision: the class is
  buy exactly when it is BUY and hold exactly when it is HOLD, and the badge shows the
  upper-cased decision, or WAIT when that is empty. A persisted row has the eight columns
  of \<open>ai_signals\<close> and no other, so no quantity is stored with any decision.
\<close>

theorem dashboard_decision_values:
  "set (map signal (getLiveMarketData pf exec rnd))
     \<subseteq> {''BUY'', ''WAIT'', ''N/A''}
       \<union> {s. \<exists>rs. exec pipeline_keys = ExecReplies rs \<and> Val (Some s) \<in> set rs}
   \<and> (exec pipeline_keys = ExecReplies rs \<and> length rs = 40 \<and> hd rs \<noteq> Val None \<longrightarrow>
        map signal (getLiveMarketData pf exec rnd) =
          map (\<lambda>i. case rs ! (i * 5 + 2) of Val (Some s) \<Rightarrow> s | _ \<Rightarrow> ''N/A'') [0..<8])
   \<and> map signal (getMockData rnd) =
        map (\<lambda>i. if rnd (4 * i + 2) > 0.5 then ''BUY'' else ''WAIT'') [0..<8]
   \<and> set (map signal (getMockData rnd)) \<subseteq> {''BUY'', ''WAIT''}
   \<and> decisionClass d \<in> {''buy'', ''wait'', ''hold''}
   \<and> (decisionClass d = ''buy'') = (d = Some ''BUY'')
   \<and> (decisionClass d = ''hold'') = (d = Some ''HOLD'')
   \<and> badge_text None = ''WAIT''
   \<and> badge_text (Some []) = ''WAIT''
   \<and> (str \<noteq> [] \<longrightarrow> badge_text (Some str) = str)
   \<and> decisionClass_app up d \<in> {''buy'', ''wait'', ''hold''}
   \<and> (decisionClass_app up d = ''buy'') = (up (case d of None \<Rightarrow> [] | Some t \<Rightarrow> t) = ''BUY'')
   \<and> (decisionClass_app up d = ''hold'') = (up (case d of None \<Rightarrow> [] | Some t \<Rightarrow> t) = ''HOLD'')
   \<and> (up (case d of None \<Rightarrow> [] | Some t \<Rightarrow> t) = [] \<longrightarrow> badge_text_app up d = ''WAIT'')
   \<and> (up (case d of None \<Rightarrow> [] | Some t \<Rightarrow> t) \<noteq> [] \<longrightarrow>
        badge_text_app up d = up (case d of None \<Rightarrow> [] | Some t \<Rightarrow> t))
   \<and> map col_name ai_signals_ddl =
       [''id'', ''material_id'', ''country_id'', ''input_price'', ''predicted_demand'',
        ''decision'', ''confidence_score'', ''created_at'']"
proof -
  have h: "map col_name ai_signals_ddl =
       [''id'', ''material_id'', ''country_id'', ''input_price'', ''predicted_demand'',
        ''decision'', ''confidence_score'', ''created_at'']"
    by (simp add: ai_signals_ddl_def)
  have a: "set (map signal (getLiveMarketData pf exec rnd))
     \<subseteq> {''BUY'', ''WAIT'', ''N/A''}
       \<union> {s. \<exists>rs. exec pipeline_keys = ExecReplies rs \<and> Val (Some s) \<in> set rs}"
    using feed_signal_cases[of _ pf exec rnd] by blast
  have a': "exec pipeline_keys = ExecReplies rs \<and> length rs = 40 \<and> hd rs \<noteq> Val None \<longrightarrow>
        map signal (getLiveMarketData pf exec rnd) =
          map (\<lambda>i. case rs ! (i * 5 + 2) of Val (Some s) \<Rightarrow> s | _ \<Rightarrow> ''N/A'') [0..<8]"
    using feed_signal_replies[of exec rs pf rnd] by blast
  have b: "set (map signal (getMockData rnd)) \<subseteq> {''BUY'', ''WAIT''}"
    using getMockData_signal[of _ rnd] by blast
  have b': "map signal (getMockData rnd) =
        map (\<lambda>i. if rnd (4 * i + 2) > 0.5 then ''BUY'' else ''WAIT'') [0..<8]"
    by (rule mock_signal_eq)
  have c: "decisionClass d \<in> {''buy'', ''wait'', ''hold''}"
    "(decisionClass d = ''buy'') = (d = Some ''BUY'')"
    "(decisionClass d = ''hold'') = (d = Some ''HOLD'')"
    by (simp_all add: decisionClass_cases)
  have e: "badge_text None = ''WAIT''" "badge_text (Some []) = ''WAIT''"
    "str \<noteq> [] \<longrightarrow> badge_text (Some str) = str"
    by (simp_all add: badge_text_def)
  have f: "decisionClass_app up d \<in> {''buy'', ''wait'', ''hold''}"
    "(decisionClass_app up d = ''buy'') = (up (case d of None \<Rightarrow> [] | Some t \<Rightarrow> t) = ''BUY'')"
    "(decisionClass_app up d = ''hold'') = (up (case d of None \<Rightarrow> [] | Some t \<Rightarrow> t) = ''HOLD'')"
    by (auto simp: decisionClass_app_def Let_def)
  have g: "up (case d of None \<Rightarrow> [] | Some t \<Rightarrow> t) = [] \<longrightarrow> badge_text_app up d = ''WAIT''"
    "up (case d of None \<Rightarrow> [] | Some t \<Rightarrow> t) \<noteq> [] \<longrightarrow>
        badge_text_app up d = up (case d of None \<Rightarrow> [] | Some t \<Rightarrow> t)"
    by (simp_all add: badge_text_app_def Let_def)
  from a a' b b' c e f g h show ?thesis by blast
qed

lemma price_only_eval:
  "map signal (getLiveMarketData sample_parseFloat (redis_exec price_only_store) rnd)
   = replicate 8 ''N/A''"
  by (simp add: getLiveMarketData_store cached_entry_def price_only_store_def
      live_key_def MATERIALS_def eval_nat_numeral)

lemma sample_store_replies:
  "redis_exec sample_store pipeline_keys
     = ExecReplies (map (\<lambda>k. Val (sample_store k)) pipeline_keys)"
  "length (map (\<lambda>k. Val (sample_store k)) pipeline_keys) = 40"
  "hd (map (\<lambda>k. Val (sample_store k)) pipeline_keys) = Val (Some ''9000.50'')"
  by (simp_all add: redis_exec_def length_pipeline_keys pipeline_keys_def MATERIALS_def
      material_keys_def Let_def live_key_def sample_store_def)

theorem dashboard_decision_values_witness:
  "redis_exec sample_store pipeline_keys
     = ExecReplies (map (\<lambda>k. Val (sample_store k)) pipeline_keys)
   \<and> length (map (\<lambda>k. Val (sample_store k)) pipeline_keys) = 40
   \<and> hd (map (\<lambda>k. Val (sample_store k)) pipeline_keys) = Val (Some ''9000.50'')
   \<and> map signal (getLiveMarketData sample_parseFloat (redis_exec sample_store) (\<lambda>k. 0))
      = map (\<lambda>i. case map (\<lambda>k. Val (sample_store k)) pipeline_keys ! (i * 5 + 2) of
                   Val (Some s) \<Rightarrow> s | _ \<Rightarrow> ''N/A'') [0..<8]
   \<and> map signal (getLiveMarketData sample_parseFloat (redis_exec sample_store) (\<lambda>k. 0))
      = [''BUY'', ''N/A'', ''N/A'', ''N/A'', ''N/A'', ''N/A'', ''N/A'', ''N/A'']
   \<and> decisionClass (Some ''buy'') = ''wait''
   \<and> badge_text (Some ''buy'') = ''buy''
   \<and> ascii_upper ''buy'' = ''BUY''
   \<and> decisionClass_app ascii_upper (Some ''buy'') = ''buy''
   \<and> badge_text_app ascii_upper (Some ''buy'') = ''BUY''
   \<and> ascii_upper [] = []
   \<and> badge_text_app ascii_upper None = ''WAIT''
   \<and> badge_text_app ascii_upper (Some ''sell'') = ''SELL''
   \<and> decisionClass_app ascii_upper (Some ''sell'') = ''wait''"
proof -
  note t = dashboard_decision_values[where pf = sample_parseFloat
      and exec = "redis_exec sample_store" and rnd = "\<lambda>k. 0" and str = "''buy''"
      and up = ascii_upper and rs = "map (\<lambda>k. Val (sample_store k)) pipeline_keys"]
  from t[of "Some ''buy''"] sample_store_replies
  have sig: "map signal (getLiveMarketData sample_parseFloat (redis_exec sample_store) (\<lambda>k. 0))
      = map (\<lambda>i. case map (\<lambda>k. Val (sample_store k)) pipeline_keys ! (i * 5 + 2) of
                   Val (Some s) \<Rightarrow> s | _ \<Rightarrow> ''N/A'') [0..<8]"
    by simp
  have lst: "map signal (getLiveMarketData sample_parseFloat (redis_exec sample_store) (\<lambda>k. 0))
      = [''BUY'', ''N/A'', ''N/A'', ''N/A'', ''N/A'', ''N/A'', ''N/A'', ''N/A'']"
    by (simp add: sample_store_eval)
  from t[of "Some ''buy''"] t[of None] t[of "Some ''sell''"]
  have cards: "decisionClass (Some ''buy'') = ''wait''"
    "badge_text (Some ''buy'') = ''buy''"
    "decisionClass_app ascii_upper (Some ''buy'') = ''buy''"
    "badge_text_app ascii_upper (Some ''buy'') = ''BUY''"
    "badge_text_app ascii_upper None = ''WAIT''"
    "badge_text_app ascii_upper (Some ''sell'') = ''SELL''"
    "decisionClass_app ascii_upper (Some ''sell'') = ''wait''"
    by (simp_all add: ascii_upper_eval decisionClass_cases decisionClass_app_def Let_def)
  from sig[symmetric] lst cards sample_store_replies ascii_upper_eval show ?thesis
    by simp
qed

text \<open>
  C5 as stated fails: a cache that holds a price but no signal gives the feed the
  decision "N/A", which is none of BUY, WAIT and HOLD.
\<close>

theorem feed_signal_outside_enumeration_counterexample:
  "price_only_store (live_key ''Egypt'' ''Copper'' ''signal'') = None
   \<and> map signal (getLiveMarketData sample_parseFloat (redis_exec price_only_store) (\<lambda>k. 0))
      = replicate 8 ''N/A''
   \<and> ''N/A'' \<notin> {''BUY'', ''WAIT'', ''HOLD''}"
proof -
  have "price_only_store (live_key ''Egypt'' ''Copper'' ''signal'') = None"
    by (simp add: price_only_store_def live_key_def)
  then show ?thesis by (simp add: price_only_eval)
qed

subsection \<open>Claim C8: the trend of the feed\<close>

lemma pipeline_keys_eval:
  "pipeline_keys ! 1 = ''live:Egypt:Copper:trend''"
  by (simp add: pipeline_keys_def MATERIALS_def material_keys_def live_key_def Let_def)

text \<open>
  C8 at a failing input. The second key queued is Copper's trend, the sample store
  holds "1.5" under it and \<open>parseFloat\<close> reads that as 1.5, yet the trend of every
  entry of the feed is the constant 0: the reply for the trend key is never read.
\<close>

theorem trend_is_constant_at_cached_trend:
  "pipeline_keys ! 1 = live_key ''Egypt'' ''Copper'' ''trend''
   \<and> sample_store (live_key ''Egypt'' ''Copper'' ''trend'') = Some ''1.5''
   \<and> sample_parseFloat ''1.5'' = Num 1.5
   \<and> map trend (getLiveMarketData sample_parseFloat (redis_exec sample_store) (\<lambda>k. 0))
      = replicate 8 (Num 0)"
proof -
  have "pipeline_keys ! 1 = live_key ''Egypt'' ''Copper'' ''trend''"
    using pipeline_keys_eval by (simp add: live_key_def)
  moreover have "sample_store (live_key ''Egypt'' ''Copper'' ''trend'') = Some ''1.5''"
    by (simp add: sample_store_def live_key_def)
  moreover have "sample_parseFloat ''1.5'' = Num 1.5"
    by (simp add: sample_parseFloat_def)
  moreover have "map trend (getLiveMarketData sample_parseFloat (redis_exec sample_store) (\<lambda>k. 0))
      = replicate 8 (Num 0)"
    by (simp add: sample_store_eval eval_nat_numeral)
  ultimately show ?thesis by blast
qed

section \<open>The decision history\<close>

subsection \<open>The query and the mapping of its rows\<close>

lemma history_join_rows:
  assumes "r \<in> set (history_join db)"
  shows "\<exists>s\<in>set (ai_signals db). \<exists>m\<in>set (materials db). \<exists>c\<in>set (countries db).
           material_id s = Some (m_id m) \<and> country_id s = Some (c_id c) \<and>
           r = \<lparr>q_timestamp = created_at s, q_material = m_name m, q_country = c_name c,
                q_price = input_price s, q_prediction = predicted_demand s,
                q_signal = decision s\<rparr>"
  using assms unfolding history_join_def by (auto split: if_splits)

lemma history_query_length: "length (history_query db) \<le> 10"
  by (simp add: history_query_def)

lemma history_query_subset: "set (history_query db) \<subseteq> set (history_join db)"
  unfolding history_query_def using set_take_subset[of 10 "sort_key recency_key (history_join db)"]
  by simp

lemma recency_key_le:
  "q_timestamp a \<noteq> None \<Longrightarrow> q_timestamp b \<noteq> None \<Longrightarrow>
   (recency_key a \<le> recency_key b) = (q_timestamp b \<le> q_timestamp a)"
  by (auto simp: recency_key_def)

lemma sorted_recency_newest_first:
  assumes "sorted (map recency_key rows)" "\<forall>r\<in>set rows. q_timestamp r \<noteq> None"
  shows "sorted_wrt (\<lambda>a b. q_timestamp b \<le> q_timestamp a) rows"
proof -
  have "sorted_wrt (\<lambda>a b. recency_key a \<le> recency_key b) rows"
    using assms(1) by (simp add: sorted_map)
  then show ?thesis
    by (rule sorted_wrt_mono_rel[rotated]) (use assms(2) recency_key_le in auto)
qed

lemma history_query_sorted: "sorted (map recency_key (history_query db))"
  unfolding history_query_def
  by (simp add: take_map[symmetric] sorted_wrt_take)

lemma map_try_serialize:
  "\<forall>r\<in>set rows. q_timestamp r \<noteq> None \<Longrightarrow>
   \<exists>recs. map_try (serialize_row toISO) rows = Inr recs \<and>
          map (serialize_row toISO) rows = map Inr recs"
proof (induction rows)
  case Nil
  then show ?case by simp
next
  case (Cons r rows)
  then obtain recs where recs: "map_try (serialize_row toISO) rows = Inr recs"
      "map (serialize_row toISO) rows = map Inr recs" by auto
  from Cons.prems obtain t where "q_timestamp r = Some t" by auto
  then obtain rec where "serialize_row toISO r = Inr rec" by (simp add: serialize_row_def)
  with recs show ?case by simp
qed

lemma map_try_serialize_null:
  "\<exists>r\<in>set rows. q_timestamp r = None \<Longrightarrow> \<exists>e. map_try (serialize_row toISO) rows = Inl e"
proof (induction rows)
  case Nil
  then show ?case by simp
next
  case (Cons r rows)
  show ?case
  proof (cases "q_timestamp r")
    case None
    then show ?thesis by (simp add: serialize_row_def)
  next
    case (Some t)
    with Cons show ?thesis by (auto simp: serialize_row_def)
  qed
qed

lemma getDecisionHistory_connected:
  "getDecisionHistory toISO (Connected db) =
     (if \<forall>r\<in>set (history_query db). q_timestamp r \<noteq> None
      then map_try (serialize_row toISO) (history_query db) else Inr [])"
proof (cases "\<forall>r\<in>set (history_query db). q_timestamp r \<noteq> None")
  case True
  from map_try_serialize[OF this, of toISO] show ?thesis
    using True by (auto simp: getDecisionHistory_def getDecisionHistory_try_def)
next
  case False
  then have "\<exists>r\<in>set (history_query db). q_timestamp r = None" by simp
  from map_try_serialize_null[OF this, of toISO] show ?thesis
    using False by (auto simp: getDecisionHistory_def getDecisionHistory_try_def)
qed

lemma length_map_Inr: "map f rows = map Inr recs \<Longrightarrow> length recs = length rows"
  by (metis length_map)

lemma take_drop_newest:
  assumes "sorted (map recency_key xs)"
  shows "\<forall>r\<in>set (drop n xs). \<forall>r'\<in>set (take n xs). recency_key r' \<le> recency_key r"
proof -
  have "sorted (map recency_key (take n xs) @ map recency_key (drop n xs))"
    using assms by (simp add: map_append[symmetric] del: map_append)
  then show ?thesis by (auto simp: sorted_append)
qed

subsection \<open>The sample database\<close>

lemma history_join_sample:
  "history_join sample_db =
     [\<lparr>q_timestamp = Some 60000000, q_material = ''Copper'', q_country = ''Egypt'',
       q_price = 9000, q_prediction = Some 9100, q_signal = ''BUY''\<rparr>,
      \<lparr>q_timestamp = Some 120000000, q_material = ''PVC'', q_country = ''UAE'',
       q_price = 920, q_prediction = Some 900, q_signal = ''WAIT''\<rparr>,
      \<lparr>q_timestamp = Some 90000000, q_material = ''Copper'', q_country = ''UAE'',
       q_price = 9020, q_prediction = None, q_signal = ''HOLD''\<rparr>]"
  by (simp add: history_join_def sample_db_def)

lemma history_query_sample:
  "history_query sample_db =
     [\<lparr>q_timestamp = Some 120000000, q_material = ''PVC'', q_country = ''UAE'',
       q_price = 920, q_prediction = Some 900, q_signal = ''WAIT''\<rparr>,
      \<lparr>q_timestamp = Some 90000000, q_material = ''Copper'', q_country = ''UAE'',
       q_price = 9020, q_prediction = None, q_signal = ''HOLD''\<rparr>,
      \<lparr>q_timestamp = Some 60000000, q_material = ''Copper'', q_country = ''Egypt'',
       q_price = 9000, q_prediction = Some 9100, q_signal = ''BUY''\<rparr>]"
  by (simp add: history_query_def history_join_sample recency_key_def)

lemma getDecisionHistory_sample:
  "getDecisionHistory sample_toISOString (Connected sample_db) =
     Inr [\<lparr>dr_timestamp = ''2000-01-01T00:02:00.000Z'', dr_material = ''PVC'',
           dr_country = ''UAE'', dr_price = Num 920, dr_prediction = Num 900,
           dr_signal = ''WAIT''\<rparr>,
          \<lparr>dr_timestamp = ''2000-01-01T00:01:30.000Z'', dr_material = ''Copper'',
           dr_country = ''UAE'', dr_price = Num 9020, dr_prediction = NaN,
           dr_signal = ''HOLD''\<rparr>,
          \<lparr>dr_timestamp = ''2000-01-01T00:01:00.000Z'', dr_material = ''Copper'',
           dr_country = ''Egypt'', dr_price = Num 9000, dr_prediction = Num 9100,
           dr_signal = ''BUY''\<rparr>]"
  by (simp add: getDecisionHistory_def getDecisionHistory_try_def history_query_sample
      serialize_row_def parseFloat_numeric_def sample_toISOString_def)

lemma history_join_null_time:
  "history_join sample_db_null_time =
     history_join sample_db @
     [\<lparr>q_timestamp = None, q_material = ''PVC'', q_country = ''Egypt'',
       q_price = 930, q_prediction = Some 900, q_signal = ''WAIT''\<rparr>]"
  by (simp add: history_join_def sample_db_null_time_def sample_db_def)

lemma history_query_null_time:
  "hd (history_query sample_db_null_time) =
     \<lparr>q_timestamp = None, q_material = ''PVC'', q_country = ''Egypt'',
       q_price = 930, q_prediction = Some 900, q_signal = ''WAIT''\<rparr>"
  by (simp add: history_query_def history_join_null_time history_join_sample recency_key_def)

lemma getDecisionHistory_null_time:
  "getDecisionHistory sample_toISOString (Connected sample_db_null_time) = Inr []"
  by (simp add: getDecisionHistory_def getDecisionHistory_try_def history_query_def
      history_join_null_time history_join_sample recency_key_def serialize_row_def)

subsection \<open>Claim C3: the ten most recent decisions\<close>

text \<open>
  C3. For every state of the tables, \<open>getDecisionHistory\<close> returns records that are the
  serialised rows of a list \<open>rows\<close> with: at most 10 records; the rows ordered from the
  most recent \<open>created_at\<close> to the oldest; each row pairing the decision of a signal with
  the name of its material, the name of its country, its input price and its predicted
  demand. When no joined row has a NULL timestamp, the rows are the first
  \<open>min 10 n\<close> of the \<open>n\<close> joined rows in that order: together with the rows left out
  they are all the joined rows, and no row left out is more recent than a row returned.
\<close>

theorem getDecisionHistory_ten_most_recent:
  "\<exists>recs rows rest.
      getDecisionHistory toISO (Connected db) = Inr recs
    \<and> map (serialize_row toISO) rows = map Inr recs
    \<and> length recs \<le> 10
    \<and> sorted_wrt (\<lambda>a b. q_timestamp b \<le> q_timestamp a) rows
    \<and> (\<forall>r\<in>set rows. \<exists>s\<in>set (ai_signals db). \<exists>m\<in>set (materials db). \<exists>c\<in>set (countries db).
           material_id s = Some (m_id m) \<and> country_id s = Some (c_id c) \<and>
           r = \<lparr>q_timestamp = created_at s, q_material = m_name m, q_country = c_name c,
                q_price = input_price s, q_prediction = predicted_demand s,
                q_signal = decision s\<rparr>)
    \<and> ((\<forall>r\<in>set (history_join db). q_timestamp r \<noteq> None) \<longrightarrow>
          mset (rows @ rest) = mset (history_join db)
        \<and> length recs = min 10 (length (history_join db))
        \<and> (\<forall>r\<in>set rest. \<forall>r'\<in>set rows. q_timestamp r \<le> q_timestamp r'))"
proof (cases "\<forall>r\<in>set (history_query db). q_timestamp r \<noteq> None")
  case True
  let ?sorted = "sort_key recency_key (history_join db)"
  let ?rows = "history_query db"
  let ?rest = "drop 10 ?sorted"
  from map_try_serialize[OF True, of toISO] obtain recs where
    recs: "map_try (serialize_row toISO) ?rows = Inr recs"
          "map (serialize_row toISO) ?rows = map Inr recs" by blast
  have res: "getDecisionHistory toISO (Connected db) = Inr recs"
    using True recs(1) by (simp add: getDecisionHistory_connected)
  have len: "length recs = length ?rows" using recs(2) by (rule length_map_Inr)
  have len10: "length recs \<le> 10" using len history_query_length[of db] by simp
  have sorted: "sorted_wrt (\<lambda>a b. q_timestamp b \<le> q_timestamp a) ?rows"
    using sorted_recency_newest_first[OF history_query_sorted True] .
  have pairs: "\<forall>r\<in>set ?rows. \<exists>s\<in>set (ai_signals db). \<exists>m\<in>set (materials db). \<exists>c\<in>set (countries db).
           material_id s = Some (m_id m) \<and> country_id s = Some (c_id c) \<and>
           r = \<lparr>q_timestamp = created_at s, q_material = m_name m, q_country = c_name c,
                q_price = input_price s, q_prediction = predicted_demand s,
                q_signal = decision s\<rparr>"
    using history_join_rows[of _ db] history_query_subset[of db] by blast
  have top: "(\<forall>r\<in>set (history_join db). q_timestamp r \<noteq> None) \<longrightarrow>
          mset (?rows @ ?rest) = mset (history_join db)
        \<and> length recs = min 10 (length (history_join db))
        \<and> (\<forall>r\<in>set ?rest. \<forall>r'\<in>set ?rows. q_timestamp r \<le> q_timestamp r')"
  proof
    assume nn: "\<forall>r\<in>set (history_join db). q_timestamp r \<noteq> None"
    have m: "mset (?rows @ ?rest) = mset (history_join db)"
      by (simp add: history_query_def)
    have l: "length recs = min 10 (length (history_join db))"
      using len by (simp add: history_query_def min.commute)
    have "sorted (map recency_key ?sorted)" by simp
    from take_drop_newest[OF this, of 10]
    have "\<forall>r\<in>set ?rest. \<forall>r'\<in>set ?rows. recency_key r' \<le> recency_key r"
      by (simp add: history_query_def)
    moreover have "\<forall>r\<in>set ?rest. q_timestamp r \<noteq> None"
      using nn set_drop_subset[of 10 ?sorted] by auto
    ultimately have "\<forall>r\<in>set ?rest. \<forall>r'\<in>set ?rows. q_timestamp r \<le> q_timestamp r'"
      using True recency_key_le by blast
    with m l show "mset (?rows @ ?rest) = mset (history_join db)
        \<and> length recs = min 10 (length (history_join db))
        \<and> (\<forall>r\<in>set ?rest. \<forall>r'\<in>set ?rows. q_timestamp r \<le> q_timestamp r')" by blast
  qed
  from res recs(2) len10 sorted pairs top show ?thesis by blast
next
  case False
  then have res: "getDecisionHistory toISO (Connected db) = Inr []"
    unfolding getDecisionHistory_connected by (simp only: if_False)
  from False have "\<not> (\<forall>r\<in>set (history_join db). q_timestamp r \<noteq> None)"
    using history_query_subset[of db] by blast
  with res show ?thesis
    by (intro exI[of _ "[]"] conjI) auto
qed

theorem getDecisionHistory_ten_most_recent_witness:
  "list_all (\<lambda>r. q_timestamp r \<noteq> None) (history_join sample_db)
   \<and> length (history_join sample_db) = 3
   \<and> getDecisionHistory sample_toISOString (Connected sample_db) =
     Inr [\<lparr>dr_timestamp = ''2000-01-01T00:02:00.000Z'', dr_material = ''PVC'',
           dr_country = ''UAE'', dr_price = Num 920, dr_prediction = Num 900,
           dr_signal = ''WAIT''\<rparr>,
          \<lparr>dr_timestamp = ''2000-01-01T00:01:30.000Z'', dr_material = ''Copper'',
           dr_country = ''UAE'', dr_price = Num 9020, dr_prediction = NaN,
           dr_signal = ''HOLD''\<rparr>,
          \<lparr>dr_timestamp = ''2000-01-01T00:01:00.000Z'', dr_material = ''Copper'',
           dr_country = ''Egypt'', dr_price = Num 9000, dr_prediction = Num 9100,
           dr_signal = ''BUY''\<rparr>]"
proof -
  have nn: "list_all (\<lambda>r. q_timestamp r \<noteq> None) (history_join sample_db)"
    "length (history_join sample_db) = 3"
    by (simp_all add: history_join_sample)
  from getDecisionHistory_ten_most_recent[of sample_toISOString sample_db]
  obtain recs where "getDecisionHistory sample_toISOString (Connected sample_db) = Inr recs"
    by blast
  with nn show ?thesis by (simp add: getDecisionHistory_sample)
qed

subsection \<open>Claim C9: no exception reaches the caller\<close>

lemma serialize_row_some:
  "q_timestamp r \<noteq> None \<Longrightarrow>
   serialize_row toISO r =
     Inr \<lparr>dr_timestamp = toISO (the (q_timestamp r)), dr_material = q_material r,
          dr_country = q_country r, dr_price = Num (q_price r),
          dr_prediction = (case q_prediction r of None \<Rightarrow> NaN | Some x \<Rightarrow> Num x),
          dr_signal = q_signal r\<rparr>"
  by (auto simp: serialize_row_def parseFloat_numeric_def)

text \<open>
  C9. \<open>getDecisionHistory\<close> always resolves to a list. When the query is rejected the
  list is empty. When the query succeeds and the mapping of its rows completes (every
  row has a timestamp), each row is returned with its price and prediction as numbers
  (NaN for a NULL prediction) and its timestamp as the string \<open>toISOString\<close> gives.
  A row with a NULL timestamp makes the mapping throw; that is caught as well and the
  list is empty.
\<close>

theorem getDecisionHistory_never_throws:
  "(\<exists>recs. getDecisionHistory toISO p = Inr recs)
   \<and> getDecisionHistory toISO (QueryRejects e) = Inr []
   \<and> ((\<forall>r\<in>set (history_query db). q_timestamp r \<noteq> None) \<longrightarrow>
        getDecisionHistory toISO (Connected db) =
          Inr (map (\<lambda>r. \<lparr>dr_timestamp = toISO (the (q_timestamp r)),
                          dr_material = q_material r,
                          dr_country = q_country r,
                          dr_price = Num (q_price r),
                          dr_prediction = (case q_prediction r of None \<Rightarrow> NaN | Some x \<Rightarrow> Num x),
                          dr_signal = q_signal r\<rparr>)
                 (history_query db)))
   \<and> ((\<exists>r\<in>set (history_query db). q_timestamp r = None) \<longrightarrow>
        getDecisionHistory toISO (Connected db) = Inr [])"
proof -
  have total: "\<exists>recs. getDecisionHistory toISO p = Inr recs"
    by (simp add: getDecisionHistory_def split: sum.split)
  have rejected: "getDecisionHistory toISO (QueryRejects e) = Inr []"
    by (simp add: getDecisionHistory_def getDecisionHistory_try_def)
  have rows: "(\<forall>r\<in>set (history_query db). q_timestamp r \<noteq> None) \<longrightarrow>
        getDecisionHistory toISO (Connected db) =
          Inr (map (\<lambda>r. \<lparr>dr_timestamp = toISO (the (q_timestamp r)),
                          dr_material = q_material r,
                          dr_country = q_country r,
                          dr_price = Num (q_price r),
                          dr_prediction = (case q_prediction r of None \<Rightarrow> NaN | Some x \<Rightarrow> Num x),
                          dr_signal = q_signal r\<rparr>)
                 (history_query db))"
  proof
    assume nn: "\<forall>r\<in>set (history_query db). q_timestamp r \<noteq> None"
    then have "getDecisionHistory toISO (Connected db)
               = map_try (serialize_row toISO) (history_query db)"
      by (simp add: getDecisionHistory_connected)
    also have "\<dots> = Inr (map (\<lambda>r. \<lparr>dr_timestamp = toISO (the (q_timestamp r)),
                          dr_material = q_material r,
                          dr_country = q_country r,
                          dr_price = Num (q_price r),
                          dr_prediction = (case q_prediction r of None \<Rightarrow> NaN | Some x \<Rightarrow> Num x),
                          dr_signal = q_signal r\<rparr>)
                 (history_query db))"
      by (rule map_try_all_Inr) (use nn serialize_row_some in blast)
    finally show "getDecisionHistory toISO (Connected db) =
          Inr (map (\<lambda>r. \<lparr>dr_timestamp = toISO (the (q_timestamp r)),
                          dr_material = q_material r,
                          dr_country = q_country r,
                          dr_price = Num (q_price r),
                          dr_prediction = (case q_prediction r of None \<Rightarrow> NaN | Some x \<Rightarrow> Num x),
                          dr_signal = q_signal r\<rparr>)
                 (history_query db))" .
  qed
  have caught: "(\<exists>r\<in>set (history_query db). q_timestamp r = None) \<longrightarrow>
        getDecisionHistory toISO (Connected db) = Inr []"
    unfolding getDecisionHistory_connected by auto
  from total rejected rows caught show ?thesis by blast
qed

theorem getDecisionHistory_never_throws_witness:
  "getDecisionHistory sample_toISOString (QueryRejects ''connection refused'') = Inr []
   \<and> list_all (\<lambda>r. q_timestamp r \<noteq> None) (history_query sample_db)
   \<and> map dr_price (projr (getDecisionHistory sample_toISOString (Connected sample_db)))
       = [Num 920, Num 9020, Num 9000]
   \<and> map dr_prediction (projr (getDecisionHistory sample_toISOString (Connected sample_db)))
       = [Num 900, NaN, Num 9100]
   \<and> map dr_timestamp (projr (getDecisionHistory sample_toISOString (Connected sample_db)))
       = [''2000-01-01T00:02:00.000Z'', ''2000-01-01T00:01:30.000Z'', ''2000-01-01T00:01:00.000Z'']
   \<and> q_timestamp (hd (history_query sample_db_null_time)) = None
   \<and> getDecisionHistory sample_toISOString (Connected sample_db_null_time) = Inr []"
proof -
  have a: "\<forall>r\<in>set (history_query sample_db). q_timestamp r \<noteq> None"
    by (simp add: history_query_sample)
  have b: "\<exists>r\<in>set (history_query sample_db_null_time). q_timestamp r = None"
  proof -
    have "history_query sample_db_null_time \<noteq> []"
      by (simp add: history_query_def history_join_null_time history_join_sample)
    then have "hd (history_query sample_db_null_time) \<in> set (history_query sample_db_null_time)"
      by simp
    then show ?thesis using history_query_null_time by force
  qed
  note t1 = getDecisionHistory_never_throws[of sample_toISOString "Connected sample_db"
      "''connection refused''" sample_db]
  note t2 = getDecisionHistory_never_throws[of sample_toISOString "Connected sample_db"
      "''connection refused''" sample_db_null_time]
  from t1 a have rows: "getDecisionHistory sample_toISOString (Connected sample_db) =
          Inr (map (\<lambda>r. \<lparr>dr_timestamp = sample_toISOString (the (q_timestamp r)),
                          dr_material = q_material r,
                          dr_country = q_country r,
                          dr_price = Num (q_price r),
                          dr_prediction = (case q_prediction r of None \<Rightarrow> NaN | Some x \<Rightarrow> Num x),
                          dr_signal = q_signal r\<rparr>)
                 (history_query sample_db))" by blast
  from t1 have rej: "getDecisionHistory sample_toISOString (QueryRejects ''connection refused'') = Inr []"
    by blast
  from t2 b have nul: "getDecisionHistory sample_toISOString (Connected sample_db_null_time) = Inr []"
    by blast
  show ?thesis
    unfolding rows rej nul
    by (simp add: history_query_sample history_query_null_time sample_toISOString_def)
qed

subsection \<open>Claim C2: the columns of an audit row\<close>

text \<open>
  C2 at a failing input. A row of \<open>ai_signals\<close> has the eight columns of the script:
  material, country, input price, forecast, decision, confidence and created timestamp
  beside the id. No column holds the stockout risk of the decision.
\<close>

theorem ai_signals_has_no_risk_column:
  "map col_name ai_signals_ddl =
     [''id'', ''material_id'', ''country_id'', ''input_price'', ''predicted_demand'',
      ''decision'', ''confidence_score'', ''created_at'']
   \<and> ''stockout_risk'' \<notin> set (map col_name ai_signals_ddl)
   \<and> ''risk'' \<notin> set (map col_name ai_signals_ddl)"
  by (simp add: ai_signals_ddl_def)

section \<open>The specified components\<close>

subsection \<open>Claim C7: the intermittent-demand state machine\<close>

lemma croston_step_next: "croston_step a st ob st' \<longleftrightarrow> st' = croston_next a st ob"
proof
  assume "croston_step a st ob st'"
  then show "st' = croston_next a st ob" by (cases rule: croston_step.cases) auto
next
  assume "st' = croston_next a st ob"
  then show "croston_step a st ob st'"
    using croston_step.on_demand[of a st] croston_step.on_zero[of a st]
    by (cases ob) auto
qed

lemma croston_run_final: "croston_run a st obs st' \<longleftrightarrow> st' = croston_final a st obs"
proof (induction obs arbitrary: st)
  case Nil
  show ?case
    by (auto simp: croston_final_def intro: croston_run.intros elim: croston_run.cases)
next
  case (Cons ob obs)
  show ?case
  proof
    assume "croston_run a st (ob # obs) st'"
    then obtain mid where "croston_step a st ob mid" "croston_run a mid obs st'"
      by (cases rule: croston_run.cases) auto
    then show "st' = croston_final a st (ob # obs)"
      using Cons.IH[of mid] by (simp add: croston_step_next croston_final_def)
  next
    assume "st' = croston_final a st (ob # obs)"
    then have "croston_run a (croston_next a st ob) obs st'"
      using Cons.IH[of "croston_next a st ob"] by (simp add: croston_final_def)
    moreover have "croston_step a st ob (croston_next a st ob)"
      by (simp add: croston_step_next)
    ultimately show "croston_run a st (ob # obs) st'"
      by (rule croston_run.run_more[rotated])
  qed
qed

text \<open>
  C7. For a fixed smoothing factor, a non-zero demand of size \<open>s\<close> after interval \<open>d\<close>
  takes a state exactly to P = a d + (1 - a) P, Z = a s + (1 - a) Z and E = 0, and a zero
  observation takes it exactly to E + 1. Every sequence of observations has a run, and
  two runs of the same sequence from the same state end in the same P and Z (indeed in
  the same state).
\<close>

theorem croston_deterministic:
  "(croston_step a st (NonZero d s) st' \<longleftrightarrow>
      st' = \<lparr>interval_P = a * d + (1 - a) * interval_P st,
             size_Z = a * s + (1 - a) * size_Z st,
             elapsed_E = 0\<rparr>)
   \<and> (croston_step a st Zero st' \<longleftrightarrow> st' = st\<lparr>elapsed_E := elapsed_E st + 1\<rparr>)
   \<and> (\<exists>fin. croston_run a st obs fin)
   \<and> (croston_run a st obs st1 \<and> croston_run a st obs st2 \<longrightarrow>
        interval_P st1 = interval_P st2 \<and> size_Z st1 = size_Z st2 \<and> st1 = st2)"
  by (simp add: croston_step_next croston_run_final)

theorem croston_deterministic_witness:
  "croston_run (1/2) sample_croston [Zero, NonZero 50 800]
     \<lparr>interval_P = 55, size_Z = 900, elapsed_E = 0\<rparr>
   \<and> croston_run (1/2) sample_croston [Zero, NonZero 50 800]
     (croston_final (1/2) sample_croston [Zero, NonZero 50 800])
   \<and> interval_P (croston_final (1/2) sample_croston [Zero, NonZero 50 800]) = 55
   \<and> size_Z (croston_final (1/2) sample_croston [Zero, NonZero 50 800]) = 900"
proof -
  have r1: "croston_run (1/2) sample_croston [Zero, NonZero 50 800]
     \<lparr>interval_P = 55, size_Z = 900, elapsed_E = 0\<rparr>"
    by (simp add: croston_run_final croston_final_def sample_croston_def)
  have r2: "croston_run (1/2) sample_croston [Zero, NonZero 50 800]
     (croston_final (1/2) sample_croston [Zero, NonZero 50 800])"
    by (simp add: croston_run_final)
  from croston_deterministic[of "1/2" sample_croston _ _ _ "[Zero, NonZero 50 800]"
      "\<lparr>interval_P = 55, size_Z = 900, elapsed_E = 0\<rparr>"
      "croston_final (1/2) sample_croston [Zero, NonZero 50 800]"] r1 r2
  have "interval_P (croston_final (1/2) sample_croston [Zero, NonZero 50 800]) = 55"
       "size_Z (croston_final (1/2) sample_croston [Zero, NonZero 50 800]) = 900"
    by auto
  with r1 r2 show ?thesis by blast
qed

subsection \<open>Claim C4: the price of the delivery date\<close>

text \<open>
  C4. Two forecast series that agree on the delivery date (day \<open>lead_time_days\<close>) give
  the same result of \<open>optimize\<close>, whatever they say for today or any other day; and the
  price term of the objective is the delivery-date forecast times the quantity.
\<close>

theorem optimize_reads_delivery_date:
  "(forecast1 lead_time_days = forecast2 lead_time_days \<longrightarrow>
      optimize pol forecast1 risk inventory lead_time_days
      = optimize pol forecast2 risk inventory lead_time_days)
   \<and> objective pol forecast1 lead_time_days inventory qty
      = forecast1 lead_time_days * qty + holding_cost pol * (inventory + qty)"
  by (simp add: optimize_def objective_def price_at_delivery_def)

theorem optimize_reads_delivery_date_witness:
  "series_low_today 30 = series_high_today 30
   \<and> series_low_today 0 < reference_price sample_policy
   \<and> reference_price sample_policy < series_high_today 0
   \<and> optimize sample_policy series_low_today (1/2) 50 30
      = Inr \<lparr>pd_decision = BUY, pd_quantity = Some 100, pd_risk = 1/2\<rparr>
   \<and> optimize sample_policy series_high_today (1/2) 50 30
      = Inr \<lparr>pd_decision = BUY, pd_quantity = Some 100, pd_risk = 1/2\<rparr>
   \<and> reference_price sample_policy < series_falling 0
   \<and> optimize sample_policy series_falling (1/2) 200 30
      = Inr \<lparr>pd_decision = WAIT, pd_quantity = None, pd_risk = 1/2\<rparr>"
proof -
  have same: "series_low_today 30 = series_high_today 30"
    by (simp add: series_low_today_def series_high_today_def)
  from optimize_reads_delivery_date[of series_low_today 30 series_high_today sample_policy
      "1/2" 50] same
  have eq: "optimize sample_policy series_low_today (1/2) 50 30
            = optimize sample_policy series_high_today (1/2) 50 30" by blast
  have buy: "optimize sample_policy series_low_today (1/2) 50 30
      = Inr \<lparr>pd_decision = BUY, pd_quantity = Some 100, pd_risk = 1/2\<rparr>"
    by (simp add: optimize_def price_at_delivery_def sample_policy_def series_low_today_def)
  have wait: "optimize sample_policy series_falling (1/2) 200 30
      = Inr \<lparr>pd_decision = WAIT, pd_quantity = None, pd_risk = 1/2\<rparr>"
    by (simp add: optimize_def price_at_delivery_def sample_policy_def series_falling_def)
  show ?thesis
    using same eq buy wait
    by (simp add: sample_policy_def series_low_today_def series_high_today_def series_falling_def)
qed

end
